theory Spec2Isabelle
  imports Complex_Main "HOL-Library.Sublist" "HOL-Library.Multiset" "HOL-Library.Product_Lexorder"
    "HOL-Library.Word"
begin

section \<open>JavaScript numbers\<close>

text \<open>
  The handler of \<^verbatim>\<open>GET /api/rates\<close> in \<^verbatim>\<open>server.js\<close> computes on JavaScript
  numbers: IEEE 754 binary64 values. A number is modelled as not-a-number, a signed
  infinity, or a sign and a magnitude; the flag is \<open>True\<close> for a negative sign, so both
  zeros exist. The magnitude is a rational; every number the model builds from text or by
  arithmetic is rounded to binary64 (round to nearest, ties to even, overflow to infinity)
  by \<open>round_double\<close>.
\<close>

datatype jsnum = NaN | Infinity bool | Num bool rat

definition pow2 :: "int \<Rightarrow> rat" where
  "pow2 e = (if 0 \<le> e then of_int (2 ^ nat e) else 1 / of_int (2 ^ nat (- e)))"

definition pow10 :: "int \<Rightarrow> rat" where
  "pow10 e = (if 0 \<le> e then of_int (10 ^ nat e) else 1 / of_int (10 ^ nat (- e)))"

function bit_length :: "int \<Rightarrow> int" where
  "bit_length n = (if n \<le> 0 then 0 else 1 + bit_length (n div 2))"
  by pat_completeness auto
termination
  by (relation "measure nat") auto

declare bit_length.simps [simp del]

text \<open>
  For a fraction \<open>a / b\<close> with \<open>0 < a\<close> and \<open>0 < b\<close>, \<open>floor_log2 a b\<close> is the exponent
  \<open>e\<close> with \<open>2 ^ e \<le> a / b < 2 ^ (e + 1)\<close>: the difference \<open>e0\<close> of the bit lengths,
  or one less.
\<close>

definition floor_log2 :: "int \<Rightarrow> int \<Rightarrow> int" where
  "floor_log2 a b =
     (let e0 = bit_length a - bit_length b
      in if (if 0 \<le> e0 then b * 2 ^ nat e0 \<le> a else b \<le> a * 2 ^ nat (- e0)) then e0 else e0 - 1)"

text \<open>The integer nearest to \<open>num / den\<close> (\<open>0 \<le> num\<close>, \<open>0 < den\<close>), the even one at a tie.\<close>

definition round_half_even :: "int \<Rightarrow> int \<Rightarrow> int" where
  "round_half_even num den =
     (let f = num div den; r = num mod den
      in if 2 * r < den then f else if den < 2 * r then f + 1 else if even f then f else f + 1)"

text \<open>
  Rounding of a magnitude \<open>0 \<le> q\<close> to binary64: 53 significant bits, the least exponent
  of a unit in the last place is \<open>-1074\<close> (subnormal numbers), and a result of
  \<open>2 ^ 1024\<close> or more is an overflow (\<open>None\<close>). The result is \<open>m * 2 ^ p\<close>, which
  reaches \<open>2 ^ 1024\<close> when the bit length of \<open>m\<close> and \<open>p\<close> add up to 1025.
\<close>

definition round_double :: "rat \<Rightarrow> rat option" where
  "round_double q =
     (if q = 0 then Some 0
      else let (a, b) = quotient_of q;
               p = max (floor_log2 a b - 52) (- 1074);
               m = (if 0 \<le> p then round_half_even a (b * 2 ^ nat p)
                    else round_half_even (a * 2 ^ nat (- p)) b)
           in if 1025 \<le> bit_length m + p then None else Some (of_int m * pow2 p))"

definition dbl :: "bool \<Rightarrow> rat \<Rightarrow> jsnum" where
  "dbl neg q = (case round_double q of None \<Rightarrow> Infinity neg | Some r \<Rightarrow> Num neg r)"

text \<open>The operators \<^verbatim>\<open>*\<close> and \<^verbatim>\<open>/\<close> on two numbers.\<close>

fun js_mul :: "jsnum \<Rightarrow> jsnum \<Rightarrow> jsnum" where
  "js_mul NaN y = NaN"
| "js_mul x NaN = NaN"
| "js_mul (Infinity s) (Infinity t) = Infinity (s \<noteq> t)"
| "js_mul (Infinity s) (Num t k) = (if k = 0 then NaN else Infinity (s \<noteq> t))"
| "js_mul (Num s m) (Infinity t) = (if m = 0 then NaN else Infinity (s \<noteq> t))"
| "js_mul (Num s m) (Num t k) = dbl (s \<noteq> t) (m * k)"

fun js_div :: "jsnum \<Rightarrow> jsnum \<Rightarrow> jsnum" where
  "js_div NaN y = NaN"
| "js_div x NaN = NaN"
| "js_div (Infinity s) (Infinity t) = NaN"
| "js_div (Infinity s) (Num t k) = Infinity (s \<noteq> t)"
| "js_div (Num s m) (Infinity t) = Num (s \<noteq> t) 0"
| "js_div (Num s m) (Num t k) =
     (if k = 0 then (if m = 0 then NaN else Infinity (s \<noteq> t)) else dbl (s \<noteq> t) (m / k))"

text \<open>Truthiness of a number, as \<^verbatim>\<open>&&\<close> and \<^verbatim>\<open>||\<close> test it: zero and NaN are falsy.\<close>

fun truthy_num :: "jsnum \<Rightarrow> bool" where
  "truthy_num NaN = False"
| "truthy_num (Infinity s) = True"
| "truthy_num (Num s m) = (m \<noteq> 0)"

text \<open>
  The key of the descending sort \<^verbatim>\<open>.sort((a,b) => b.num - a.num)\<close>. For numbers that are
  not NaN the sign of \<^verbatim>\<open>b.num - a.num\<close> is the sign of the exact difference, and the
  difference of two equal infinities is NaN, which the sort reads as \<open>0\<close>; so the
  comparator orders by numeric value, larger first, both zeros equal. The key is smaller
  for a larger number.
\<close>

fun desc_key :: "jsnum \<Rightarrow> int \<times> rat" where
  "desc_key (Infinity False) = (0, 0)"
| "desc_key (Num s m) = (1, if s then m else - m)"
| "desc_key (Infinity True) = (2, 0)"
| "desc_key NaN = (3, 0)"

text \<open>
  The operator \<^verbatim>\<open>>=\<close> on two numbers: false when one of them is NaN; otherwise the order
  of the values, with the positive infinity above and the negative infinity below every
  other number, and the two zeros equal.
\<close>

definition with_sign :: "bool \<Rightarrow> rat \<Rightarrow> rat" where
  "with_sign neg m = (if neg then - m else m)"

fun js_ge :: "jsnum \<Rightarrow> jsnum \<Rightarrow> bool" where
  "js_ge NaN y = False"
| "js_ge x NaN = False"
| "js_ge (Infinity s) (Infinity t) = (if s then t else True)"
| "js_ge (Infinity s) (Num t k) = (if s then False else True)"
| "js_ge (Num s m) (Infinity t) = t"
| "js_ge (Num s m) (Num t k) = (with_sign t k \<le> with_sign s m)"

section \<open>JavaScript strings\<close>

text \<open>
  The extractor lower-cases keys and paths. \<^verbatim>\<open>toLowerCase\<close> is modelled on the
  characters of Latin-1, so the strings of the extractor are lists of characters with
  codes \<open>0\<close> to \<open>255\<close>, read as the code points of Latin-1; the flattener, further
  down, works on all strings. \<^verbatim>\<open>toLowerCase\<close> maps \<open>A\<close>-\<open>Z\<close> and the capital letters \<open>U+00C0\<close> to
  \<open>U+00DE\<close> (but not the multiplication sign \<open>U+00D7\<close>) to the letter 32 code points
  later. \<^verbatim>\<open>trim\<close> removes white space and line terminators, which in this range are
  the codes 9 to 13, 32 and 160.
\<close>

definition code :: "char \<Rightarrow> int" where
  "code c = of_char c"

definition lower_char :: "char \<Rightarrow> char" where
  "lower_char c =
     (let n = code c
      in if (65 \<le> n \<and> n \<le> 90) \<or> (192 \<le> n \<and> n \<le> 222 \<and> n \<noteq> 215) then char_of (n + 32) else c)"

definition lc :: "string \<Rightarrow> string" where
  "lc s = map lower_char s"

definition is_space :: "char \<Rightarrow> bool" where
  "is_space c = (let n = code c in (9 \<le> n \<and> n \<le> 13) \<or> n = 32 \<or> n = 160)"

definition trim :: "string \<Rightarrow> string" where
  "trim s = rev (dropWhile is_space (rev (dropWhile is_space s)))"

definition str_includes :: "string \<Rightarrow> string \<Rightarrow> bool" where
  "str_includes s sub = sublist sub s"

definition endsWith :: "string \<Rightarrow> string \<Rightarrow> bool" where
  "endsWith s p = suffix p s"

fun decimal :: "nat \<Rightarrow> string" where
  "decimal n = (if n < 10 then [char_of (48 + n)] else decimal (n div 10) @ [char_of (48 + n mod 10)])"

declare decimal.simps [simp del]

section \<open>Conversion of a string to a number\<close>

text \<open>
  \<^verbatim>\<open>Number(s)\<close> on a string: white space is stripped, the empty string is \<open>0\<close>, and the
  rest must be a whole numeric literal: a signed decimal literal (\<^verbatim>\<open>12\<close>, \<^verbatim>\<open>1.5\<close>, \<^verbatim>\<open>.5\<close>,
  \<^verbatim>\<open>5.\<close>, \<^verbatim>\<open>1e3\<close>), a signed \<^verbatim>\<open>Infinity\<close>, or an unsigned literal with the prefix
  \<^verbatim>\<open>0x\<close>, \<^verbatim>\<open>0o\<close> or \<^verbatim>\<open>0b\<close>. Anything else is NaN.
\<close>

definition is_digit :: "char \<Rightarrow> bool" where
  "is_digit c = (48 \<le> code c \<and> code c \<le> 57)"

definition digit_val :: "char \<Rightarrow> int" where
  "digit_val c =
     (let n = code c
      in if 48 \<le> n \<and> n \<le> 57 then n - 48 else if 97 \<le> n \<and> n \<le> 102 then n - 87 else n - 55)"

definition is_digit_of :: "int \<Rightarrow> char \<Rightarrow> bool" where
  "is_digit_of b c =
     (let n = code c
      in if b = 16 then (48 \<le> n \<and> n \<le> 57) \<or> (97 \<le> n \<and> n \<le> 102) \<or> (65 \<le> n \<and> n \<le> 70)
         else 48 \<le> n \<and> n < 48 + b)"

definition digits_val :: "int \<Rightarrow> string \<Rightarrow> int" where
  "digits_val b cs = foldl (\<lambda>a c. b * a + digit_val c) 0 cs"

definition all_digits :: "string \<Rightarrow> bool" where
  "all_digits cs = (cs \<noteq> [] \<and> list_all is_digit cs)"

text \<open>The text after the mantissa: nothing, or \<^verbatim>\<open>e\<close> or \<^verbatim>\<open>E\<close>, an optional sign and digits.\<close>

definition exponent_part :: "string \<Rightarrow> int option" where
  "exponent_part r =
     (case r of
        [] \<Rightarrow> Some 0
      | c # r1 \<Rightarrow>
          if c = CHR ''e'' \<or> c = CHR ''E'' then
            (case r1 of
               [] \<Rightarrow> None
             | d # r2 \<Rightarrow>
                 if d = CHR ''-'' then (if all_digits r2 then Some (- digits_val 10 r2) else None)
                 else if d = CHR ''+'' then (if all_digits r2 then Some (digits_val 10 r2) else None)
                 else if all_digits r1 then Some (digits_val 10 r1) else None)
          else None)"

definition unsigned_decimal :: "string \<Rightarrow> rat option" where
  "unsigned_decimal cs =
     (let ip = takeWhile is_digit cs;
          r1 = dropWhile is_digit cs;
          (fp, r2) = (case r1 of
                        [] \<Rightarrow> ([], [])
                      | c # r \<Rightarrow> if c = CHR ''.'' then (takeWhile is_digit r, dropWhile is_digit r)
                                 else ([], r1))
      in if ip = [] \<and> fp = [] then None
         else (case exponent_part r2 of
                 None \<Rightarrow> None
               | Some e \<Rightarrow> Some (of_int (digits_val 10 (ip @ fp)) * pow10 (e - int (length fp)))))"

definition unsigned_literal :: "bool \<Rightarrow> string \<Rightarrow> jsnum" where
  "unsigned_literal neg cs =
     (if cs = ''Infinity'' then Infinity neg
      else (case unsigned_decimal cs of None \<Rightarrow> NaN | Some q \<Rightarrow> dbl neg q))"

definition based_literal :: "int \<Rightarrow> string \<Rightarrow> jsnum" where
  "based_literal b ds =
     (if ds \<noteq> [] \<and> list_all (is_digit_of b) ds then dbl False (of_int (digits_val b ds)) else NaN)"

definition Number :: "string \<Rightarrow> jsnum" where
  "Number s =
     (case trim s of
        [] \<Rightarrow> Num False 0
      | c # cs \<Rightarrow>
          if c = CHR ''+'' then unsigned_literal False cs
          else if c = CHR ''-'' then unsigned_literal True cs
          else if c = CHR ''0'' \<and> cs \<noteq> [] \<and> hd cs \<in> {CHR ''x'', CHR ''X''} then based_literal 16 (tl cs)
          else if c = CHR ''0'' \<and> cs \<noteq> [] \<and> hd cs \<in> {CHR ''o'', CHR ''O''} then based_literal 8 (tl cs)
          else if c = CHR ''0'' \<and> cs \<noteq> [] \<and> hd cs \<in> {CHR ''b'', CHR ''B''} then based_literal 2 (tl cs)
          else unsigned_literal False (c # cs))"

section \<open>JSON values and parseNumber\<close>

text \<open>
  A payload is a JSON value. An object is the list of its properties in the order of
  \<^verbatim>\<open>Object.keys\<close>, each key once. The type of the characters is a parameter: \<open>json\<close> is
  a value whose strings are strings of Latin-1, as the extractor reads them.
\<close>

datatype 'c jvalue =
    JNull
  | JBool bool
  | JNum jsnum
  | JStr "'c list"
  | JArr "'c jvalue list"
  | JObj "('c list \<times> 'c jvalue) list"

type_synonym json = "char jvalue"

text \<open>
  \<^verbatim>\<open>
  const parseNumber = (v) => {
    if (typeof v === 'number' && !Number.isNaN(v)) return v;
    if (typeof v === 'string') {
      const s = v.trim();
      if (s === '') return null;
      const n = Number(s);
      if (!Number.isNaN(n)) return n;
    }
    return null;
  };
  \<close>
  The result \<^verbatim>\<open>null\<close> is \<open>None\<close>.
\<close>

fun parseNumber :: "json \<Rightarrow> jsnum option" where
  "parseNumber (JNum v) = (if v \<noteq> NaN then Some v else None)"
| "parseNumber (JStr v) =
     (let s = trim v
      in if s = [] then None
         else (let n = Number s in if n \<noteq> NaN then Some n else None))"
| "parseNumber v = None"

section \<open>Strings of code units\<close>

text \<open>
  A string of JavaScript is a sequence of UTF-16 code units, numbers of 16 bits. The
  flattener and \<^verbatim>\<open>JSON.parse\<close> are modelled on such sequences: a text of plain ASCII can
  decode to a string with any code unit, through the escape \<^verbatim>\<open>\uXXXX\<close>. A character of
  Latin-1 is the code unit with its code.
\<close>

type_synonym code_unit = "16 word"

type_synonym ustring = "code_unit list"

type_synonym ujson = "code_unit jvalue"

definition cu :: "char \<Rightarrow> code_unit" where
  "cu c = of_char c"

definition utf16 :: "string \<Rightarrow> ustring" where
  "utf16 s = map cu s"

text \<open>
  The way back, for a string whose code units are all below 256 (the digits of a number
  are): the characters of Latin-1 with these codes.
\<close>

definition the_latin1 :: "ustring \<Rightarrow> string" where
  "the_latin1 s = map (\<lambda>c. char_of (unat c)) s"

text \<open>
  \<^verbatim>\<open>trim\<close> removes white space and line terminators at both ends: the code units
  \<open>U+0009\<close> to \<open>U+000D\<close>, \<open>U+0020\<close>, \<open>U+00A0\<close>, \<open>U+1680\<close>, \<open>U+2000\<close> to \<open>U+200A\<close>,
  \<open>U+2028\<close>, \<open>U+2029\<close>, \<open>U+202F\<close>, \<open>U+205F\<close>, \<open>U+3000\<close> and \<open>U+FEFF\<close>.
\<close>

definition is_space_unit :: "code_unit \<Rightarrow> bool" where
  "is_space_unit c =
     ((0x0009 \<le> c \<and> c \<le> 0x000D) \<or> c = 0x0020 \<or> c = 0x00A0 \<or> c = 0x1680 \<or>
      (0x2000 \<le> c \<and> c \<le> 0x200A) \<or> c = 0x2028 \<or> c = 0x2029 \<or> c = 0x202F \<or>
      c = 0x205F \<or> c = 0x3000 \<or> c = 0xFEFF)"

definition trim_units :: "ustring \<Rightarrow> ustring" where
  "trim_units s = rev (dropWhile is_space_unit (rev (dropWhile is_space_unit s)))"

definition startsWith :: "'a list \<Rightarrow> 'a list \<Rightarrow> bool" where
  "startsWith s p = prefix p s"

text \<open>\<^verbatim>\<open>path.split('.').pop()\<close>: the text after the last dot.\<close>

definition last_segment :: "ustring \<Rightarrow> ustring" where
  "last_segment p = rev (takeWhile (\<lambda>c. c \<noteq> cu (CHR ''.'')) (rev p))"

section \<open>JSON.parse\<close>

text \<open>
  The flattener decodes strings with \<^verbatim>\<open>JSON.parse\<close>. The model reads the text in two
  passes: \<open>tokenize\<close> splits it into tokens and \<open>run\<close> drives a stack of open arrays and
  objects over the tokens. White space between tokens is tab, line feed, carriage return
  and space. A string token may hold any code unit from \<open>U+0020\<close> on except the quote
  and the backslash, and the escapes of JSON; an escape \<^verbatim>\<open>\uXXXX\<close> stands for the code
  unit with the hexadecimal number \<^verbatim>\<open>XXXX\<close>.
\<close>

datatype token = TLBrace | TRBrace | TLBracket | TRBracket | TColon | TComma | TValue ujson

definition unescape :: "code_unit \<Rightarrow> code_unit option" where
  "unescape e =
     (if e = cu (CHR 0x22) \<or> e = cu (CHR 0x5C) \<or> e = cu (CHR ''/'') then Some e
      else if e = cu (CHR ''b'') then Some 0x0008
      else if e = cu (CHR ''f'') then Some 0x000C
      else if e = cu (CHR ''n'') then Some 0x000A
      else if e = cu (CHR ''r'') then Some 0x000D
      else if e = cu (CHR ''t'') then Some 0x0009
      else None)"

definition is_hex :: "code_unit \<Rightarrow> bool" where
  "is_hex c =
     ((cu (CHR ''0'') \<le> c \<and> c \<le> cu (CHR ''9'')) \<or> (cu (CHR ''a'') \<le> c \<and> c \<le> cu (CHR ''f'')) \<or>
      (cu (CHR ''A'') \<le> c \<and> c \<le> cu (CHR ''F'')))"

definition hex_val :: "code_unit \<Rightarrow> code_unit" where
  "hex_val c =
     (if c \<le> cu (CHR ''9'') then c - cu (CHR ''0'')
      else if cu (CHR ''a'') \<le> c then c - cu (CHR ''a'') + 10
      else c - cu (CHR ''A'') + 10)"

text \<open>The code unit of four hexadecimal digits; four digits stay below \<open>2 ^ 16\<close>.\<close>

definition hex4 :: "ustring \<Rightarrow> code_unit" where
  "hex4 ds = foldl (\<lambda>a d. 16 * a + hex_val d) 0 ds"

text \<open>\<open>scan_string\<close> reads a string token after its opening quote: the text and the rest.\<close>

fun scan_string :: "ustring \<Rightarrow> (ustring \<times> ustring) option" where
  "scan_string [] = None"
| "scan_string (c # cs) =
     (if c = cu (CHR 0x22) then Some ([], cs)
      else if c = cu (CHR 0x5C) then
        (case cs of
           [] \<Rightarrow> None
         | e # r \<Rightarrow>
             if e = cu (CHR ''u'') then
               (if 4 \<le> length r \<and> list_all is_hex (take 4 r)
                then map_option (\<lambda>(s, rest). (hex4 (take 4 r) # s, rest)) (scan_string (drop 4 r))
                else None)
             else (case unescape e of
                     None \<Rightarrow> None
                   | Some d \<Rightarrow> map_option (\<lambda>(s, rest). (d # s, rest)) (scan_string r)))
      else if c < 0x0020 then None
      else map_option (\<lambda>(s, rest). (c # s, rest)) (scan_string cs))"

text \<open>
  A number of JSON: an optional minus, \<^verbatim>\<open>0\<close> or digits that do not start with \<^verbatim>\<open>0\<close>, an
  optional fraction with at least one digit, an optional exponent. Its value is the one
  \<open>Number\<close> gives the same text. The characters of a number are ASCII, and the token is
  read as a string of Latin-1.
\<close>

definition is_number_char :: "code_unit \<Rightarrow> bool" where
  "is_number_char c =
     ((cu (CHR ''0'') \<le> c \<and> c \<le> cu (CHR ''9'')) \<or>
      c \<in> {cu (CHR ''+''), cu (CHR ''-''), cu (CHR ''.''), cu (CHR ''e''), cu (CHR ''E'')})"

definition json_number_ok :: "string \<Rightarrow> bool" where
  "json_number_ok cs =
     (let ip = takeWhile is_digit cs;
          r1 = dropWhile is_digit cs
      in ip \<noteq> [] \<and> (ip = ''0'' \<or> hd ip \<noteq> CHR ''0'') \<and>
         (case r1 of
            [] \<Rightarrow> True
          | c # r \<Rightarrow>
              if c = CHR ''.'' then takeWhile is_digit r \<noteq> [] \<and> exponent_part (dropWhile is_digit r) \<noteq> None
              else exponent_part r1 \<noteq> None))"

definition json_number :: "string \<Rightarrow> jsnum option" where
  "json_number cs =
     (case cs of
        [] \<Rightarrow> None
      | c # r \<Rightarrow>
          if c = CHR ''-'' then (if json_number_ok r then Some (unsigned_literal True r) else None)
          else if json_number_ok cs then Some (unsigned_literal False cs) else None)"

definition is_json_space :: "code_unit \<Rightarrow> bool" where
  "is_json_space c = (c \<in> {0x0009, 0x000A, 0x000D, 0x0020})"

lemma scan_string_length:
  "scan_string cs = Some (s, rest) \<Longrightarrow> length s + length rest < length cs"
proof (induction cs arbitrary: s rest rule: scan_string.induct)
  case 1
  then show ?case by simp
next
  case (2 c cs)
  show ?case
  proof (cases "c = cu (CHR 0x22)")
    case True
    with "2.prems" show ?thesis by simp
  next
    case notq: False
    show ?thesis
    proof (cases "c = cu (CHR 0x5C)")
      case True
      with notq "2.prems" obtain e r where cs: "cs = e # r"
        by (cases cs) auto
      show ?thesis
      proof (cases "e = cu (CHR ''u'')")
        case u: True
        with True notq cs "2.prems" obtain s' where
          ok: "4 \<le> length r" "list_all is_hex (take 4 r)"
          and rec: "scan_string (drop 4 r) = Some (s', rest)"
          and s: "s = hex4 (take 4 r) # s'"
          by (auto split: if_splits)
        from "2.IH"(1) [OF notq True cs u _ rec] ok
        have "length s' + length rest < length (drop 4 r)" by simp
        with ok s cs show ?thesis by simp
      next
        case nu: False
        with True notq cs "2.prems" obtain d s' where
          d: "unescape e = Some d" and rec: "scan_string r = Some (s', rest)" and s: "s = d # s'"
          by (auto split: option.splits)
        from "2.IH"(2) [OF notq True cs nu d rec]
        have "length s' + length rest < length r" .
        with s cs show ?thesis by simp
      qed
    next
      case False
      with notq "2.prems" obtain s' where
        c: "\<not> c < 0x0020" and rec: "scan_string cs = Some (s', rest)" and s: "s = c # s'"
        by (auto split: if_splits)
      from "2.IH"(3) [OF notq False c rec]
      have "length s' + length rest < length cs" .
      with s show ?thesis by simp
    qed
  qed
qed

text \<open>\<open>next_token\<close> reads the token that starts with the code unit \<open>c\<close>; \<open>cs\<close> follows it.\<close>

definition next_token :: "code_unit \<Rightarrow> ustring \<Rightarrow> (token \<times> ustring) option" where
  "next_token c cs =
     (if c = cu (CHR ''{'') then Some (TLBrace, cs)
      else if c = cu (CHR ''}'') then Some (TRBrace, cs)
      else if c = cu (CHR ''['') then Some (TLBracket, cs)
      else if c = cu (CHR '']'') then Some (TRBracket, cs)
      else if c = cu (CHR '':'') then Some (TColon, cs)
      else if c = cu (CHR '','') then Some (TComma, cs)
      else if c = cu (CHR 0x22) then
        (case scan_string cs of
           None \<Rightarrow> None
         | Some (s, rest) \<Rightarrow> Some (TValue (JStr s), rest))
      else if is_number_char c then
        (case json_number (the_latin1 (c # takeWhile is_number_char cs)) of
           None \<Rightarrow> None
         | Some n \<Rightarrow> Some (TValue (JNum n), dropWhile is_number_char cs))
      else if c = cu (CHR ''t'') \<and> take 3 cs = utf16 ''rue'' then Some (TValue (JBool True), drop 3 cs)
      else if c = cu (CHR ''f'') \<and> take 4 cs = utf16 ''alse'' then Some (TValue (JBool False), drop 4 cs)
      else if c = cu (CHR ''n'') \<and> take 3 cs = utf16 ''ull'' then Some (TValue JNull, drop 3 cs)
      else None)"

lemma next_token_length: "next_token c cs = Some (t, rest) \<Longrightarrow> length rest \<le> length cs"
  unfolding next_token_def
  by (auto split: if_splits option.splits dest: scan_string_length simp: length_dropWhile_le)

function tokenize :: "ustring \<Rightarrow> token list option" where
  "tokenize [] = Some []"
| "tokenize (c # cs) =
     (if is_json_space c then tokenize cs
      else (case next_token c cs of
              None \<Rightarrow> None
            | Some (t, rest) \<Rightarrow> map_option (Cons t) (tokenize rest)))"
  by pat_completeness auto
termination
proof (relation "measure length")
  fix c cs x2 x y
  assume "next_token c cs = Some x2" "(x, y) = x2"
  then have "next_token c cs = Some (x, y)" by simp
  from next_token_length [OF this] show "(y, c # cs) \<in> measure length" by simp
qed auto

declare tokenize.simps [simp del]

text \<open>
  The properties of an object are kept in the order of \<^verbatim>\<open>Object.keys\<close>: the keys that are
  array indices (canonical decimal numerals up to \<open>2^32 - 2\<close>) in ascending order, then the
  other keys in the order they were first added. Defining a key again replaces its value
  where it stands.
\<close>

definition index_of :: "ustring \<Rightarrow> int" where
  "index_of k = digits_val 10 (the_latin1 k)"

definition is_array_index :: "ustring \<Rightarrow> bool" where
  "is_array_index k =
     (k \<noteq> [] \<and> list_all (\<lambda>c. cu (CHR ''0'') \<le> c \<and> c \<le> cu (CHR ''9'')) k \<and>
      (k = utf16 ''0'' \<or> hd k \<noteq> cu (CHR ''0'')) \<and> length k \<le> 10 \<and> index_of k \<le> 4294967294)"

fun insert_index :: "ustring \<Rightarrow> ujson \<Rightarrow> (ustring \<times> ujson) list \<Rightarrow> (ustring \<times> ujson) list" where
  "insert_index k v [] = [(k, v)]"
| "insert_index k v ((k', v') # ms) =
     (if is_array_index k' \<and> index_of k' < index_of k then (k', v') # insert_index k v ms
      else (k, v) # (k', v') # ms)"

fun replace_value :: "ustring \<Rightarrow> ujson \<Rightarrow> (ustring \<times> ujson) list \<Rightarrow> (ustring \<times> ujson) list" where
  "replace_value k v [] = []"
| "replace_value k v ((k', v') # ms) =
     (if k' = k then (k, v) # ms else (k', v') # replace_value k v ms)"

definition obj_put :: "ustring \<Rightarrow> ujson \<Rightarrow> (ustring \<times> ujson) list \<Rightarrow> (ustring \<times> ujson) list" where
  "obj_put k v ms =
     (if k \<in> set (map fst ms) then replace_value k v ms
      else if is_array_index k then insert_index k v ms
      else ms @ [(k, v)])"

text \<open>
  The parser's state: what may come next, and the arrays and objects that are still open,
  innermost first. An open array holds its elements so far in reverse; an open object
  holds its properties so far and the key that waits for its value.
\<close>

datatype frame = FArr "ujson list" | FObj "(ustring \<times> ujson) list" "ustring option"

datatype expect = XValue | XValueOrEnd | XKeyOrEnd | XKey | XColon | XCommaOrEnd

datatype pstate = PState expect "frame list" | PDone ujson

fun push_value :: "ujson \<Rightarrow> frame list \<Rightarrow> pstate option" where
  "push_value v [] = Some (PDone v)"
| "push_value v (FArr xs # st) = Some (PState XCommaOrEnd (FArr (v # xs) # st))"
| "push_value v (FObj ms (Some k) # st) = Some (PState XCommaOrEnd (FObj (obj_put k v ms) None # st))"
| "push_value v (FObj ms None # st) = None"

fun step :: "token \<Rightarrow> pstate \<Rightarrow> pstate option" where
  "step t (PDone v) = None"
| "step (TValue v) (PState x st) =
     (if x = XValue \<or> x = XValueOrEnd then push_value v st
      else if x = XKeyOrEnd \<or> x = XKey then
        (case (v, st) of
           (JStr k, FObj ms None # st') \<Rightarrow> Some (PState XColon (FObj ms (Some k) # st'))
         | _ \<Rightarrow> None)
      else None)"
| "step TLBracket (PState x st) =
     (if x = XValue \<or> x = XValueOrEnd then Some (PState XValueOrEnd (FArr [] # st)) else None)"
| "step TLBrace (PState x st) =
     (if x = XValue \<or> x = XValueOrEnd then Some (PState XKeyOrEnd (FObj [] None # st)) else None)"
| "step TRBracket (PState x st) =
     (if x = XValueOrEnd \<or> x = XCommaOrEnd then
        (case st of FArr xs # st' \<Rightarrow> push_value (JArr (rev xs)) st' | _ \<Rightarrow> None)
      else None)"
| "step TRBrace (PState x st) =
     (if x = XKeyOrEnd \<or> x = XCommaOrEnd then
        (case st of FObj ms None # st' \<Rightarrow> push_value (JObj ms) st' | _ \<Rightarrow> None)
      else None)"
| "step TColon (PState x st) = (if x = XColon then Some (PState XValue st) else None)"
| "step TComma (PState x st) =
     (if x = XCommaOrEnd then
        (case st of
           FArr xs # st' \<Rightarrow> Some (PState XValue st)
         | FObj ms None # st' \<Rightarrow> Some (PState XKey st)
         | _ \<Rightarrow> None)
      else None)"

fun run :: "token list \<Rightarrow> pstate \<Rightarrow> ujson option" where
  "run [] (PDone v) = Some v"
| "run [] (PState x st) = None"
| "run (t # ts) s = (case step t s of None \<Rightarrow> None | Some s' \<Rightarrow> run ts s')"

definition JSON_parse :: "ustring \<Rightarrow> ujson option" where
  "JSON_parse s = (case tokenize s of None \<Rightarrow> None | Some ts \<Rightarrow> run ts (PState XValue []))"

section \<open>The size of a value\<close>





section \<open>The flattener\<close>

text \<open>
  \<^verbatim>\<open>
  const flatten = (obj, prefix = '') => {
    const out = [];
    const helper = (val, path) => {
      if (typeof val === 'string') {
        const s = val.trim();
        if ((s.startsWith('{') || s.startsWith('['))) {
          try {
            const parsed = JSON.parse(s);
            helper(parsed, path);
            return;
          } catch (e) { }
        }
      }
      if (val && typeof val === 'object') {
        if (Array.isArray(val)) {
          val.forEach((item, i) => helper(item, `${path}[${i}]`));
        } else {
          Object.keys(val).forEach((k) => helper(val[k], path ? `${path}.${k}` : k));
        }
      } else {
        out.push({ path, key: path ? path.split('.').pop() : '', value: val });
      }
    };
    helper(obj, prefix);
    return out;
  };
  \<close>
  The code sets no bound to the recursion of \<^verbatim>\<open>helper\<close>; the call stack does. Every call
  of \<^verbatim>\<open>helper\<close> that is under way takes room on the stack, and a call for which no room
  is left throws a \<^verbatim>\<open>RangeError\<close>. The first argument of \<open>helper\<close> is the number of
  nested calls of \<^verbatim>\<open>helper\<close> the stack has room for: with \<open>0\<close> the call throws, and a
  call with room for \<open>n + 1\<close> leaves room for \<open>n\<close> to the calls it makes. (The engine
  counts bytes, and a call through \<^verbatim>\<open>forEach\<close> takes more of them than the call after a
  decode; \<open>n\<close> stands for the number of calls that fit. \<^verbatim>\<open>JSON.parse\<close> is taken to
  have room enough.)

  \<open>helper\<close> takes the array \<^verbatim>\<open>out\<close> as it stands before the call and returns it as it
  stands after, with the way the call completed. \<^verbatim>\<open>forEach\<close> stops at the first call
  that throws. The \<^verbatim>\<open>try\<close> encloses the call \<^verbatim>\<open>helper(parsed, path)\<close>: a \<^verbatim>\<open>RangeError\<close>
  thrown in it is caught like a failure of \<^verbatim>\<open>JSON.parse\<close>, the entries pushed before it
  stay in \<^verbatim>\<open>out\<close>, and the string is pushed as it is. A \<^verbatim>\<open>RangeError\<close> that reaches
  \<^verbatim>\<open>flatten\<close> leaves it without a result (\<open>None\<close>); the handler's \<^verbatim>\<open>catch (err)\<close>
  then answers \<open>500\<close>.
\<close>

datatype completion = Normal | Thrown

record 'c flat_entry =
  path :: "'c list"
  key :: "'c list"
  "value" :: "'c jvalue"

type_synonym entry = "char flat_entry"

type_synonym uentry = "code_unit flat_entry"

definition leaf :: "ujson \<Rightarrow> ustring \<Rightarrow> uentry" where
  "leaf val p = \<lparr>path = p, key = (if p \<noteq> [] then last_segment p else []), value = val\<rparr>"

fun forEach :: "('a \<Rightarrow> 's \<Rightarrow> 's \<times> completion) \<Rightarrow> 'a list \<Rightarrow> 's \<Rightarrow> 's \<times> completion" where
  "forEach f [] out = (out, Normal)"
| "forEach f (x # xs) out =
     (case f x out of
        (out', Normal) \<Rightarrow> forEach f xs out'
      | (out', Thrown) \<Rightarrow> (out', Thrown))"

primrec helper :: "nat \<Rightarrow> ujson \<Rightarrow> ustring \<Rightarrow> uentry list \<Rightarrow> uentry list \<times> completion" where
  "helper 0 val p out = (out, Thrown)"
| "helper (Suc n) val p out =
     (case val of
        JStr v \<Rightarrow>
          (let s = trim_units v
           in if startsWith s (utf16 ''{'') \<or> startsWith s (utf16 ''['') then
                (case JSON_parse s of
                   Some parsed \<Rightarrow>
                     (case helper n parsed p out of
                        (out', Normal) \<Rightarrow> (out', Normal)
                      | (out', Thrown) \<Rightarrow> (out' @ [leaf val p], Normal))
                 | None \<Rightarrow> (out @ [leaf val p], Normal))
              else (out @ [leaf val p], Normal))
      | JArr items \<Rightarrow>
          forEach (\<lambda>(i, item). helper n item (p @ utf16 ''['' @ utf16 (decimal i) @ utf16 '']''))
            (enumerate 0 items) out
      | JObj ms \<Rightarrow>
          forEach (\<lambda>(k, v). helper n v (if p \<noteq> [] then p @ utf16 ''.'' @ k else k)) ms out
      | _ \<Rightarrow> (out @ [leaf val p], Normal))"

declare helper.simps(2) [simp del]

definition flatten :: "nat \<Rightarrow> ujson \<Rightarrow> uentry list option" where
  "flatten n obj = (case helper n obj [] [] of (out, Normal) \<Rightarrow> Some out | (out, Thrown) \<Rightarrow> None)"

text \<open>
  A payload of the extractor, and an entry of it, as the flattener has them: every
  character as its code unit.
\<close>

definition wide :: "json \<Rightarrow> ujson" where
  "wide v = map_jvalue cu v"

definition wide_entry :: "entry \<Rightarrow> uentry" where
  "wide_entry e = \<lparr>path = utf16 (path e), key = utf16 (key e), value = wide (value e)\<rparr>"

section \<open>The extractor\<close>

text \<open>
  The handler works on \<^verbatim>\<open>currency\<close>, the requested currency in lower case, on \<^verbatim>\<open>data\<close>,
  the payload as it stands at \<^verbatim>\<open>const entries = flatten(data)\<close> (a payload wrapped in a
  property \<^verbatim>\<open>data\<close> has been unwrapped before, and an array merged into one object), and
  on \<^verbatim>\<open>entries\<close>. The payload is a plain JSON value, as \<^verbatim>\<open>JSON.parse\<close> builds it. The
  extractor is modelled on payloads and entries whose strings are strings of Latin-1; for
  a payload \<open>data\<close>, \<open>entries\<close> are the entries of the extractor when the
  flattener returns \<open>map wide_entry entries\<close> for \<open>wide data\<close>.

  The variables \<^verbatim>\<open>goldPerGram\<close> and \<^verbatim>\<open>silverPerGram\<close> start as \<^verbatim>\<open>null\<close> (\<open>None\<close>) and
  are assigned by six steps in turn; \<open>gold1\<close> to \<open>gold6\<close> and \<open>silver1\<close> to
  \<open>silver6\<close> are their values after each step.
\<close>

definition pickByKeyIncludes :: "entry list \<Rightarrow> string list \<Rightarrow> entry option" where
  "pickByKeyIncludes entries substrings =
     find (\<lambda>e. list_all (\<lambda>sub. str_includes (lc (key e)) sub) substrings) entries"

text \<open>
  \<^verbatim>\<open>if (found) { const n = parseNumber(found.value); if (n != null) x = n; }\<close> for a
  variable \<^verbatim>\<open>x\<close> that is \<^verbatim>\<open>null\<close> before: the value of \<^verbatim>\<open>x\<close> after.
\<close>

definition number_of :: "entry option \<Rightarrow> jsnum option" where
  "number_of found = (case found of None \<Rightarrow> None | Some e \<Rightarrow> parseNumber (value e))"

text \<open>Step 1: keys that contain \<^verbatim>\<open>gold\<close> and \<^verbatim>\<open>gram\<close>, or \<^verbatim>\<open>silver\<close> and \<^verbatim>\<open>gram\<close>.\<close>

definition gold1 :: "entry list \<Rightarrow> jsnum option" where
  "gold1 entries = number_of (pickByKeyIncludes entries [''gold'', ''gram''])"

definition silver1 :: "entry list \<Rightarrow> jsnum option" where
  "silver1 entries = number_of (pickByKeyIncludes entries [''silver'', ''gram''])"

text \<open>Step 2: the keys \<^verbatim>\<open>gram_in_${currency}\<close> and \<^verbatim>\<open>silver_gram_in_${currency}\<close>.\<close>

definition gold2 :: "string \<Rightarrow> entry list \<Rightarrow> jsnum option" where
  "gold2 currency entries =
     (if gold1 entries = None then
        (let k = ''gram_in_'' @ currency
         in number_of (find (\<lambda>e. lc (key e) = k \<or> endsWith (lc (path e)) (''.'' @ k)) entries))
      else gold1 entries)"

definition silver2 :: "string \<Rightarrow> entry list \<Rightarrow> jsnum option" where
  "silver2 currency entries =
     (if silver1 entries = None then
        (let k = ''silver_gram_in_'' @ currency
         in number_of (find (\<lambda>e. lc (key e) = k \<or> endsWith (lc (path e)) (''.'' @ k)) entries))
      else silver1 entries)"

text \<open>Step 3: generic keys.\<close>

definition gold3 :: "string \<Rightarrow> entry list \<Rightarrow> jsnum option" where
  "gold3 currency entries =
     (if gold2 currency entries = None then
        number_of (find (\<lambda>e. lc (key e) = ''gram'' \<or> str_includes (lc (key e)) ''gram_in'') entries)
      else gold2 currency entries)"

definition silver3 :: "string \<Rightarrow> entry list \<Rightarrow> jsnum option" where
  "silver3 currency entries =
     (if silver2 currency entries = None then
        number_of (find (\<lambda>e. lc (key e) = ''silver'' \<or> str_includes (lc (key e)) ''silver_gram'') entries)
      else silver2 currency entries)"

text \<open>Step 4: keys or paths that contain \<^verbatim>\<open>xau\<close> or \<^verbatim>\<open>xag\<close>.\<close>

definition gold4 :: "string \<Rightarrow> entry list \<Rightarrow> jsnum option" where
  "gold4 currency entries =
     (if gold3 currency entries = None then
        number_of (find (\<lambda>e. str_includes (lc (key e)) ''xau'' \<or> str_includes (lc (path e)) ''xau'') entries)
      else gold3 currency entries)"

definition silver4 :: "string \<Rightarrow> entry list \<Rightarrow> jsnum option" where
  "silver4 currency entries =
     (if silver3 currency entries = None then
        number_of (find (\<lambda>e. str_includes (lc (key e)) ''xag'' \<or> str_includes (lc (path e)) ''xag'') entries)
      else silver3 currency entries)"

text \<open>
  Step 5: the numeric entries whose key contains \<^verbatim>\<open>gram\<close>, largest first. A candidate
  \<^verbatim>\<open>{...e, num: parseNumber(e.value)}\<close> is the pair of the entry and its number.
  \<^verbatim>\<open>Array.prototype.sort\<close> is stable, and so is \<open>sort_key\<close>.
\<close>

definition with_num :: "entry \<Rightarrow> entry \<times> jsnum" where
  "with_num e = (e, case parseNumber (value e) of Some n \<Rightarrow> n | None \<Rightarrow> NaN)"

definition gramCandidates :: "string \<Rightarrow> entry list \<Rightarrow> (entry \<times> jsnum) list" where
  "gramCandidates currency entries =
     sort_key (\<lambda>c. desc_key (snd c))
       (map with_num
          (filter (\<lambda>e. str_includes (lc (key e)) ''gram'' \<and> parseNumber (value e) \<noteq> None \<and>
                        (currency = ''usd'' \<or> \<not> str_includes (lc (key e)) ''usd''))
             entries))"

definition gold5 :: "string \<Rightarrow> entry list \<Rightarrow> jsnum option" where
  "gold5 currency entries =
     (if gold4 currency entries = None \<or> silver4 currency entries = None then
        (let cs = gramCandidates currency entries
         in if 1 \<le> length cs \<and> gold4 currency entries = None then Some (snd (cs ! 0))
            else gold4 currency entries)
      else gold4 currency entries)"

definition silver5 :: "string \<Rightarrow> entry list \<Rightarrow> jsnum option" where
  "silver5 currency entries =
     (if gold4 currency entries = None \<or> silver4 currency entries = None then
        (let cs = gramCandidates currency entries
         in if 2 \<le> length cs \<and> silver4 currency entries = None then Some (snd (cs ! 1))
            else silver4 currency entries)
      else silver4 currency entries)"

text \<open>Step 6: all numeric entries but the time stamps, largest first.\<close>

definition numericEntries :: "string \<Rightarrow> entry list \<Rightarrow> (entry \<times> jsnum) list" where
  "numericEntries currency entries =
     sort_key (\<lambda>c. desc_key (snd c))
       (map with_num
          (filter (\<lambda>e. parseNumber (value e) \<noteq> None \<and> \<not> str_includes (lc (key e)) ''gmt'' \<and>
                        \<not> str_includes (lc (key e)) ''updated'' \<and> \<not> str_includes (lc (key e)) ''time'' \<and>
                        (currency = ''usd'' \<or> \<not> str_includes (lc (key e)) ''usd''))
             entries))"

definition gold6 :: "string \<Rightarrow> entry list \<Rightarrow> jsnum option" where
  "gold6 currency entries =
     (if gold5 currency entries = None \<or> silver5 currency entries = None then
        (let ns = numericEntries currency entries
         in if 1 \<le> length ns \<and> gold5 currency entries = None then Some (snd (ns ! 0))
            else gold5 currency entries)
      else gold5 currency entries)"

definition silver6 :: "string \<Rightarrow> entry list \<Rightarrow> jsnum option" where
  "silver6 currency entries =
     (if gold5 currency entries = None \<or> silver5 currency entries = None then
        (let ns = numericEntries currency entries
         in if 2 \<le> length ns \<and> silver5 currency entries = None then Some (snd (ns ! 1))
            else silver5 currency entries)
      else silver5 currency entries)"

text \<open>
  The factor found among the entries: \<^verbatim>\<open>gramToOunce\<close> as it stands between the search
  \<^verbatim>\<open>gto\<close> and the line that gives it a default.
\<close>

definition gramToOunce_found :: "entry list \<Rightarrow> jsnum option" where
  "gramToOunce_found entries =
     number_of (find (\<lambda>e. str_includes (lc (key e)) ''gram_to_ounce'' \<or>
                           str_includes (lc (key e)) ''gram_to_ounce_formula'') entries)"

text \<open>
  Prices per gram from prices per ounce in the requested currency.
  \<^verbatim>\<open>
  const findKey = (k) => entries.find(e => lc(e.key) === k || lc(e.path).endsWith(`.${k}`));
  const sOunce = findKey(sOunceKey) || entries.find(e => lc(e.key).includes('silver_ounce') && lc(e.key).includes(currency));
  const silverFromOunce = (sOunce && parseNumber(sOunce.value) != null && gramToOunce) ? parseNumber(sOunce.value) * gramToOunce : null;
  \<close>
  and the same for gold with \<^verbatim>\<open>ounce_in_${currency}\<close> and \<^verbatim>\<open>ounce\<close>. (\<^verbatim>\<open>usdToLocal\<close> is
  computed there and never used.)
\<close>

definition findKey :: "entry list \<Rightarrow> string \<Rightarrow> entry option" where
  "findKey entries k = find (\<lambda>e. lc (key e) = k \<or> endsWith (lc (path e)) (''.'' @ k)) entries"

definition sOunce :: "string \<Rightarrow> entry list \<Rightarrow> entry option" where
  "sOunce currency entries =
     (case findKey entries (''silver_ounce_in_'' @ currency) of
        Some e \<Rightarrow> Some e
      | None \<Rightarrow> find (\<lambda>e. str_includes (lc (key e)) ''silver_ounce'' \<and> str_includes (lc (key e)) currency) entries)"

definition gOunce :: "string \<Rightarrow> entry list \<Rightarrow> entry option" where
  "gOunce currency entries =
     (case findKey entries (''ounce_in_'' @ currency) of
        Some e \<Rightarrow> Some e
      | None \<Rightarrow> find (\<lambda>e. str_includes (lc (key e)) ''ounce'' \<and> str_includes (lc (key e)) currency) entries)"

definition fromOunce :: "entry option \<Rightarrow> jsnum option \<Rightarrow> jsnum option" where
  "fromOunce ounce gramToOunce =
     (case ounce of
        None \<Rightarrow> None
      | Some e \<Rightarrow>
          (case parseNumber (value e) of
             None \<Rightarrow> None
           | Some n \<Rightarrow>
               (case gramToOunce of
                  None \<Rightarrow> None
                | Some f \<Rightarrow> if truthy_num f then Some (js_mul n f) else None)))"

definition silverFromOunce :: "string \<Rightarrow> entry list \<Rightarrow> jsnum option" where
  "silverFromOunce currency entries = fromOunce (sOunce currency entries) (gramToOunce_found entries)"

definition goldFromOunce :: "string \<Rightarrow> entry list \<Rightarrow> jsnum option" where
  "goldFromOunce currency entries = fromOunce (gOunce currency entries) (gramToOunce_found entries)"

text \<open>
  \<^verbatim>\<open>
  if (currency !== 'usd') {
    if (silverFromOunce != null) silverPerGram = silverFromOunce;
    if (goldFromOunce != null) goldPerGram = goldFromOunce;
  } else {
    if (silverPerGram == null && silverFromOunce != null) silverPerGram = silverFromOunce;
    if (goldPerGram == null && goldFromOunce != null) goldPerGram = goldFromOunce;
  }
  \<close>
  \<open>prefer_ounce\<close> is one of these assignments; \<open>goldPerGram\<close> and \<open>silverPerGram\<close>
  are the variables after them.
\<close>

definition prefer_ounce :: "string \<Rightarrow> jsnum option \<Rightarrow> jsnum option \<Rightarrow> jsnum option" where
  "prefer_ounce currency perGram from_ounce =
     (if currency \<noteq> ''usd'' then (if from_ounce \<noteq> None then from_ounce else perGram)
      else (if perGram = None \<and> from_ounce \<noteq> None then from_ounce else perGram))"

definition goldPerGram :: "string \<Rightarrow> entry list \<Rightarrow> jsnum option" where
  "goldPerGram currency entries =
     prefer_ounce currency (gold6 currency entries) (goldFromOunce currency entries)"

definition silverPerGram :: "string \<Rightarrow> entry list \<Rightarrow> jsnum option" where
  "silverPerGram currency entries =
     prefer_ounce currency (silver6 currency entries) (silverFromOunce currency entries)"

text \<open>
  \<^verbatim>\<open>if (gramToOunce == null) gramToOunce = data.gram_to_ounce_formula ?? data.gram_to_ounce ?? 0.0321507;\<close>
  A property of the payload may hold any JSON value, so from here \<^verbatim>\<open>gramToOunce\<close> is a
  JSON value. Only an object has the properties read here.
\<close>

fun get_prop :: "json \<Rightarrow> string \<Rightarrow> json option" where
  "get_prop (JObj ms) k = map_of ms k"
| "get_prop v k = None"

text \<open>\<^verbatim>\<open>a ?? b\<close>: \<open>b\<close> when \<open>a\<close> is \<^verbatim>\<open>undefined\<close> (\<open>None\<close>) or \<^verbatim>\<open>null\<close>, else \<open>a\<close>.\<close>

fun coalesce :: "json option \<Rightarrow> json \<Rightarrow> json" where
  "coalesce None b = b"
| "coalesce (Some JNull) b = b"
| "coalesce (Some a) b = a"

definition default_factor :: jsnum where
  "default_factor = dbl False (321507 / 10000000)"

definition gramToOunce :: "entry list \<Rightarrow> json \<Rightarrow> json" where
  "gramToOunce entries data =
     (case gramToOunce_found entries of
        Some n \<Rightarrow> JNum n
      | None \<Rightarrow>
          coalesce (get_prop data ''gram_to_ounce_formula'')
            (coalesce (get_prop data ''gram_to_ounce'') (JNum default_factor)))"

text \<open>
  The division \<^verbatim>\<open>goldPerGram / gramToOunce\<close> converts its right operand to a number.
  \<^verbatim>\<open>null\<close> is \<open>0\<close>, a boolean is \<open>0\<close> or \<open>1\<close>, a string is read by \<open>Number\<close>, an
  object is NaN. An array is joined to a string first: the empty array gives the empty
  string, so \<open>0\<close>; an array of two or more elements gives a text with a comma, so NaN;
  an array of one element gives the text of that element, which is empty for \<^verbatim>\<open>null\<close>,
  reads back as the same number for a number (but as \<open>0\<close> for the negative zero), and is
  the text of the inner array for an array.
\<close>

fun ToNumber :: "json \<Rightarrow> jsnum" where
  "ToNumber JNull = Num False 0"
| "ToNumber (JBool b) = Num False (if b then 1 else 0)"
| "ToNumber (JNum n) = n"
| "ToNumber (JStr s) = Number s"
| "ToNumber (JObj ms) = NaN"
| "ToNumber (JArr []) = Num False 0"
| "ToNumber (JArr [JNull]) = Num False 0"
| "ToNumber (JArr [JBool b]) = NaN"
| "ToNumber (JArr [JNum n]) = (if n = Num True 0 then Num False 0 else n)"
| "ToNumber (JArr [JStr s]) = Number s"
| "ToNumber (JArr [JObj ms]) = NaN"
| "ToNumber (JArr [JArr xs]) = ToNumber (JArr xs)"
| "ToNumber (JArr (x # y # zs)) = NaN"

text \<open>
  A JSON value may have no text: the conversion of an object to a string or to a number
  calls its \<^verbatim>\<open>toString\<close>, and an object decoded from JSON that has a property of its own
  with that name has a value there that cannot be called, so the conversion throws a
  \<^verbatim>\<open>TypeError\<close>. An array has the texts of its elements joined, and throws when one of
  them does. The conversion to a number above is reached for the other values only.
\<close>

fun can_stringify :: "json \<Rightarrow> bool" where
  "can_stringify (JObj ms) = (''toString'' \<notin> set (map fst ms))"
| "can_stringify (JArr xs) = list_all can_stringify xs"
| "can_stringify v = True"

section \<open>The response\<close>

text \<open>
  The body of the response \<open>200\<close> holds the prices of both metals (and the currency and
  the time of the last update, which are left out here); the response \<open>502\<close> of a failed
  extraction holds a message and \<^verbatim>\<open>Object.keys(data).slice(0,50)\<close>. The numbers are the
  ones handed to \<^verbatim>\<open>res.json\<close>. Before either, the handler logs
  \<^verbatim>\<open>
  console.log(`[/api/rates] Extracted goldPerGram=${goldPerGram} silverPerGram=${silverPerGram} gramToOunce=${gramToOunce}`);
  \<close>
  which converts \<^verbatim>\<open>gramToOunce\<close> to a string; when that throws, the handler's
  \<^verbatim>\<open>catch (err)\<close> answers \<open>500\<close>.
\<close>

record metal =
  perGram :: jsnum
  perOunce :: jsnum
  perKg :: jsnum

record rates =
  gold :: metal
  silver :: metal

datatype response = Status200 rates | Status502 string "string list" | Status500 string

fun Object_keys :: "json \<Rightarrow> string list" where
  "Object_keys (JObj ms) = map fst ms"
| "Object_keys (JArr xs) = map decimal [0..<length xs]"
| "Object_keys (JStr s) = map decimal [0..<length s]"
| "Object_keys v = []"

definition convert :: "jsnum \<Rightarrow> json \<Rightarrow> metal" where
  "convert g factor = \<lparr>perGram = g, perOunce = js_div g (ToNumber factor), perKg = js_mul g (Num False 1000)\<rparr>"

definition respond :: "string \<Rightarrow> json \<Rightarrow> entry list \<Rightarrow> response" where
  "respond currency data entries =
     (if \<not> can_stringify (gramToOunce entries data) then Status500 ''Internal server error''
      else (case (goldPerGram currency entries, silverPerGram currency entries) of
              (Some g, Some s) \<Rightarrow>
                Status200 \<lparr>gold = convert g (gramToOunce entries data),
                           silver = convert s (gramToOunce entries data)\<rparr>
            | _ \<Rightarrow> Status502 ''Unexpected response format from GoldPriceZ'' (take 50 (Object_keys data))))"


section \<open>Sample payloads and auxiliary notions\<close>

text \<open>\<^verbatim>\<open>Number.isFinite\<close>: neither NaN nor an infinity.\<close>

definition is_finite :: "jsnum \<Rightarrow> bool" where
  "is_finite n = (case n of Num s m \<Rightarrow> True | _ \<Rightarrow> False)"

text \<open>The comparison \<^verbatim>\<open>==\<close> of two numbers: NaN equals nothing, the two zeros are equal.\<close>

fun strict_equal :: "jsnum \<Rightarrow> jsnum \<Rightarrow> bool" where
  "strict_equal (Num s m) (Num t k) = (m = k \<and> (s = t \<or> m = 0))"
| "strict_equal (Infinity s) (Infinity t) = (s = t)"
| "strict_equal x y = False"

text \<open>
  A property that \<^verbatim>\<open>??\<close> passes over: one the payload does not have, or one that is
  \<^verbatim>\<open>null\<close>.
\<close>

definition nullish :: "json option \<Rightarrow> bool" where
  "nullish x = (x = None \<or> x = Some JNull)"

text \<open>
  The payloads of the extractor that follow are objects whose properties are numbers and
  strings; with each comes the list of its entries, which the flattener returns (as
  \<open>map wide_entry\<close> of it) when the stack has room for two nested calls, or for three
  where a property is an object.
\<close>

text \<open>Scenario A of the specification.\<close>

definition scenario_A :: json where
  "scenario_A =
     JObj [(''gold_gram_in_usd'', JNum (Num False 100)),
           (''silver_gram_in_usd'', JNum (dbl False (12 / 10)))]"

definition scenario_A_entries :: "entry list" where
  "scenario_A_entries =
     [\<lparr>path = ''gold_gram_in_usd'', key = ''gold_gram_in_usd'', value = JNum (Num False 100)\<rparr>,
      \<lparr>path = ''silver_gram_in_usd'', key = ''silver_gram_in_usd'', value = JNum (dbl False (12 / 10))\<rparr>]"

text \<open>Scenario C of the specification, with the smaller price first and as a string.\<close>

definition scenario_C :: json where
  "scenario_C =
     JObj [(''price_gram_22k'', JStr ''1.05''), (''price_gram_24k'', JNum (Num False 85))]"

definition scenario_C_entries :: "entry list" where
  "scenario_C_entries =
     [\<lparr>path = ''price_gram_22k'', key = ''price_gram_22k'', value = JStr ''1.05''\<rparr>,
      \<lparr>path = ''price_gram_24k'', key = ''price_gram_24k'', value = JNum (Num False 85)\<rparr>]"

text \<open>Scenario D of the specification: a payload that names no price.\<close>

definition scenario_D :: json where
  "scenario_D =
     JObj [(''status'', JStr ''error''), (''message'', JStr ''quota exceeded'')]"

definition scenario_D_entries :: "entry list" where
  "scenario_D_entries =
     [\<lparr>path = ''status'', key = ''status'', value = JStr ''error''\<rparr>,
      \<lparr>path = ''message'', key = ''message'', value = JStr ''quota exceeded''\<rparr>]"

text \<open>
  A payload whose property \<^verbatim>\<open>gram_to_ounce\<close> is an object with a property \<^verbatim>\<open>toString\<close>.
\<close>

definition sample_unprintable :: json where
  "sample_unprintable = JObj [(''gram_to_ounce'', JObj [(''toString'', JStr ''x'')])]"

definition sample_unprintable_entries :: "entry list" where
  "sample_unprintable_entries =
     [\<lparr>path = ''gram_to_ounce.toString'', key = ''toString'', value = JStr ''x''\<rparr>]"

text \<open>A payload whose first key with \<^verbatim>\<open>gold\<close> and \<^verbatim>\<open>gram\<close> is not numeric.\<close>

definition sample_first_match :: json where
  "sample_first_match =
     JObj [(''gold_gram_unit'', JStr ''g''), (''gold_gram'', JNum (Num False 100)),
           (''gram'', JNum (Num False 5)), (''silver_gram'', JNum (Num False 1))]"

definition sample_first_match_entries :: "entry list" where
  "sample_first_match_entries =
     [\<lparr>path = ''gold_gram_unit'', key = ''gold_gram_unit'', value = JStr ''g''\<rparr>,
      \<lparr>path = ''gold_gram'', key = ''gold_gram'', value = JNum (Num False 100)\<rparr>,
      \<lparr>path = ''gram'', key = ''gram'', value = JNum (Num False 5)\<rparr>,
      \<lparr>path = ''silver_gram'', key = ''silver_gram'', value = JNum (Num False 1)\<rparr>]"

text \<open>Scenario E of the specification, with prices per gram besides the price per ounce.\<close>

definition sample_inr_ounce :: json where
  "sample_inr_ounce =
     JObj [(''gold_gram_24k'', JNum (Num False 6000)), (''silver_gram'', JStr '' 75.5 ''),
           (''gram_to_ounce_formula'', JNum (dbl False (321507 / 10000000))),
           (''silver_ounce_in_inr'', JNum (Num False 93000))]"

definition sample_inr_ounce_entries :: "entry list" where
  "sample_inr_ounce_entries =
     [\<lparr>path = ''gold_gram_24k'', key = ''gold_gram_24k'', value = JNum (Num False 6000)\<rparr>,
      \<lparr>path = ''silver_gram'', key = ''silver_gram'', value = JStr '' 75.5 ''\<rparr>,
      \<lparr>path = ''gram_to_ounce_formula'', key = ''gram_to_ounce_formula'', value = JNum (dbl False (321507 / 10000000))\<rparr>,
      \<lparr>path = ''silver_ounce_in_inr'', key = ''silver_ounce_in_inr'', value = JNum (Num False 93000)\<rparr>]"

text \<open>A payload with the price of a gram in dollars only.\<close>

definition sample_gram_in_usd :: json where
  "sample_gram_in_usd =
     JObj [(''gram_in_usd'', JNum (Num False 77))]"

definition sample_gram_in_usd_entries :: "entry list" where
  "sample_gram_in_usd_entries =
     [\<lparr>path = ''gram_in_usd'', key = ''gram_in_usd'', value = JNum (Num False 77)\<rparr>]"

text \<open>A payload with the generic keys of step 3, in capitals.\<close>

definition sample_generic :: json where
  "sample_generic =
     JObj [(''Gram'', JStr ''61.5''), (''SILVER'', JNum (Num False 2))]"

definition sample_generic_entries :: "entry list" where
  "sample_generic_entries =
     [\<lparr>path = ''Gram'', key = ''Gram'', value = JStr ''61.5''\<rparr>,
      \<lparr>path = ''SILVER'', key = ''SILVER'', value = JNum (Num False 2)\<rparr>]"

text \<open>A payload with a price per ounce and no factor.\<close>

definition sample_no_factor :: json where
  "sample_no_factor =
     JObj [(''gold_gram'', JNum (Num False 100)), (''silver_gram'', JNum (dbl False (12 / 10))),
           (''silver_ounce_in_inr'', JNum (Num False 93000))]"

definition sample_no_factor_entries :: "entry list" where
  "sample_no_factor_entries =
     [\<lparr>path = ''gold_gram'', key = ''gold_gram'', value = JNum (Num False 100)\<rparr>,
      \<lparr>path = ''silver_gram'', key = ''silver_gram'', value = JNum (dbl False (12 / 10))\<rparr>,
      \<lparr>path = ''silver_ounce_in_inr'', key = ''silver_ounce_in_inr'', value = JNum (Num False 93000)\<rparr>]"

text \<open>A payload with another price per ounce before the one of silver.\<close>

definition sample_platinum :: json where
  "sample_platinum =
     JObj [(''gram_to_ounce_formula'', JNum (dbl False (321507 / 10000000))),
           (''platinum_ounce_in_inr'', JNum (Num False 90000)),
           (''silver_ounce_in_inr'', JNum (Num False 93000))]"

definition sample_platinum_entries :: "entry list" where
  "sample_platinum_entries =
     [\<lparr>path = ''gram_to_ounce_formula'', key = ''gram_to_ounce_formula'', value = JNum (dbl False (321507 / 10000000))\<rparr>,
      \<lparr>path = ''platinum_ounce_in_inr'', key = ''platinum_ounce_in_inr'', value = JNum (Num False 90000)\<rparr>,
      \<lparr>path = ''silver_ounce_in_inr'', key = ''silver_ounce_in_inr'', value = JNum (Num False 93000)\<rparr>]"

text \<open>A payload with the factor and the price of silver per ounce only.\<close>

definition sample_silver_ounce :: json where
  "sample_silver_ounce =
     JObj [(''gram_to_ounce_formula'', JNum (dbl False (321507 / 10000000))),
           (''silver_ounce_in_inr'', JNum (Num False 93000))]"

definition sample_silver_ounce_entries :: "entry list" where
  "sample_silver_ounce_entries =
     [\<lparr>path = ''gram_to_ounce_formula'', key = ''gram_to_ounce_formula'', value = JNum (dbl False (321507 / 10000000))\<rparr>,
      \<lparr>path = ''silver_ounce_in_inr'', key = ''silver_ounce_in_inr'', value = JNum (Num False 93000)\<rparr>]"

text \<open>
  A payload with two numeric keys that contain \<^verbatim>\<open>gram\<close>, 85 and 1.05, no key that names a
  metal, and a price per ounce in rupees.
\<close>

definition sample_ounce_override :: json where
  "sample_ounce_override =
     JObj [(''price_gram'', JNum (Num False 85)), (''gram_to_ounce'', JNum (dbl False (105 / 100))),
           (''ounce_in_inr'', JNum (Num False 1000))]"

definition sample_ounce_override_entries :: "entry list" where
  "sample_ounce_override_entries =
     [\<lparr>path = ''price_gram'', key = ''price_gram'', value = JNum (Num False 85)\<rparr>,
      \<lparr>path = ''gram_to_ounce'', key = ''gram_to_ounce'', value = JNum (dbl False (105 / 100))\<rparr>,
      \<lparr>path = ''ounce_in_inr'', key = ''ounce_in_inr'', value = JNum (Num False 1000)\<rparr>]"

text \<open>A payload with both prices per gram and a factor that is not a number.\<close>

definition sample_text_factor :: json where
  "sample_text_factor =
     JObj [(''gold_gram'', JNum (Num False 100)), (''silver_gram'', JNum (dbl False (12 / 10))),
           (''gram_to_ounce'', JStr ''n/a'')]"

definition sample_text_factor_entries :: "entry list" where
  "sample_text_factor_entries =
     [\<lparr>path = ''gold_gram'', key = ''gold_gram'', value = JNum (Num False 100)\<rparr>,
      \<lparr>path = ''silver_gram'', key = ''silver_gram'', value = JNum (dbl False (12 / 10))\<rparr>,
      \<lparr>path = ''gram_to_ounce'', key = ''gram_to_ounce'', value = JStr ''n/a''\<rparr>]"

text \<open>
  A string decodes when the flattener goes on with the value \<^verbatim>\<open>JSON.parse\<close> gives its
  trimmed text. A value is a leaf when the flattener pushes it as it is: a scalar, or a
  string that does not decode.
\<close>

definition decodes :: "ustring \<Rightarrow> bool" where
  "decodes v =
     (let s = trim_units v
      in (startsWith s (utf16 ''{'') \<or> startsWith s (utf16 ''['')) \<and> JSON_parse s \<noteq> None)"

fun is_leaf :: "ujson \<Rightarrow> bool" where
  "is_leaf (JStr v) = (\<not> decodes v)"
| "is_leaf (JArr xs) = False"
| "is_leaf (JObj ms) = False"
| "is_leaf v = True"








section \<open>The numeric parser\<close>

text \<open>
  C6, as stated: \<open>parseNumber\<close> returns a finite number or nothing. It does not: the
  string \<^verbatim>\<open>"Infinity"\<close> and the number \<^verbatim>\<open>Infinity\<close> (which \<^verbatim>\<open>JSON.parse\<close> gives for
  \<^verbatim>\<open>1e999\<close>) are returned, since the code tests \<^verbatim>\<open>Number.isNaN\<close> only.
\<close>

theorem parseNumber_infinity_counterexample:
  "parseNumber (JStr ''Infinity'') = Some (Infinity False) \<and>
   parseNumber (JNum (Infinity False)) = Some (Infinity False) \<and>
   \<not> is_finite (Infinity False)"
  by code_simp

text \<open>
  C6, amended: \<open>parseNumber\<close> is a total function that returns a number that is not NaN
  (finite or infinite) or nothing. A number that is not NaN is returned unchanged; a
  string is trimmed and gives nothing when empty, otherwise the number \<open>Number\<close> reads
  from the whole of it unless that is NaN; every other kind of value, and NaN, gives
  nothing. \<^verbatim>\<open>"123.45"\<close> gives the double nearest to 123.45, \<^verbatim>\<open>""\<close> and \<^verbatim>\<open>true\<close> give
  nothing, \<open>42\<close> gives \<open>42\<close>.
\<close>

theorem parseNumber_total:
  "(case parseNumber v of None \<Rightarrow> True | Some n \<Rightarrow> n \<noteq> NaN) \<and>
   parseNumber (JNum n) = (if n = NaN then None else Some n) \<and>
   parseNumber (JStr s) =
     (if trim s = [] then None else if Number (trim s) = NaN then None else Some (Number (trim s))) \<and>
   parseNumber JNull = None \<and> parseNumber (JBool b) = None \<and>
   parseNumber (JArr xs) = None \<and> parseNumber (JObj ms) = None \<and>
   parseNumber (JStr ''123.45'') = Some (dbl False (12345 / 100)) \<and>
   dbl False (12345 / 100) = Num False (8687021468732621 / 70368744177664) \<and>
   parseNumber (JStr '''') = None \<and>
   parseNumber (JBool True) = None \<and>
   parseNumber (JNum (Num False 42)) = Some (Num False 42)"
proof -
  have a: "case parseNumber v of None \<Rightarrow> True | Some n \<Rightarrow> n \<noteq> NaN"
    by (cases v) (auto simp: Let_def)
  have b: "parseNumber (JStr ''123.45'') = Some (dbl False (12345 / 100))"
    by code_simp
  have c: "dbl False (12345 / 100) = Num False (8687021468732621 / 70368744177664)"
    by code_simp
  have d: "parseNumber (JStr '''') = None"
    by code_simp
  have e: "parseNumber (JNum n) = (if n = NaN then None else Some n)"
    "parseNumber (JStr s) =
     (if trim s = [] then None else if Number (trim s) = NaN then None else Some (Number (trim s)))"
    "parseNumber JNull = None" "parseNumber (JBool b) = None"
    "parseNumber (JArr xs) = None" "parseNumber (JObj ms) = None"
    "parseNumber (JBool True) = None"
    "parseNumber (JNum (Num False 42)) = Some (Num False 42)"
    by (simp_all add: Let_def)
  show ?thesis
    apply (intro conjI)
    apply (rule a e b c d)+
    done
qed

text \<open>The theorem at a hexadecimal literal, a word and a negative infinity.\<close>

theorem parseNumber_total_witness:
  "parseNumber (JStr '' 0x1F '') = Some (Num False 31) \<and>
   parseNumber (JStr ''abc'') = None \<and>
   parseNumber (JStr ''-Infinity'') = Some (Infinity True)"
proof -
  have n1: "Number (trim '' 0x1F '') = Num False 31" "trim '' 0x1F '' \<noteq> []" by code_simp+
  have n2: "Number (trim ''abc'') = NaN" "trim ''abc'' \<noteq> []" by code_simp+
  have n3: "Number (trim ''-Infinity'') = Infinity True" "trim ''-Infinity'' \<noteq> []" by code_simp+
  from parseNumber_total [of JNull NaN "'' 0x1F ''" True "[]" "[]"]
  have "parseNumber (JStr '' 0x1F '') = Some (Num False 31)" unfolding n1 using n1(2) by simp
  moreover from parseNumber_total [of JNull NaN "''abc''" True "[]" "[]"]
  have "parseNumber (JStr ''abc'') = None" unfolding n2 using n2(2) by simp
  moreover from parseNumber_total [of JNull NaN "''-Infinity''" True "[]" "[]"]
  have "parseNumber (JStr ''-Infinity'') = Some (Infinity True)" unfolding n3 using n3(2) by simp
  ultimately show ?thesis by simp
qed
section \<open>The size of a decoded text\<close>










section \<open>The flattener with room enough\<close>

lemma forEach_normal:
  "(\<And>x out. x \<in> set xs \<Longrightarrow> f x out = (out @ g x, Normal)) \<Longrightarrow>
   forEach f xs out = (out @ concat (map g xs), Normal)"
  by (induction xs arbitrary: out) simp_all











text \<open>A leaf is pushed as it is by a call that has room.\<close>

lemma leaf_pushed: "is_leaf x \<Longrightarrow> helper (Suc n) x q out = (out @ [leaf x q], Normal)"
  by (cases x) (auto simp: helper.simps(2) decodes_def Let_def split: option.splits)




lemma object_one:
  "helper (Suc n) (JObj [(k, x)]) p out = helper n x (if p \<noteq> [] then p @ utf16 ''.'' @ k else k) out"
  by (cases "helper n x (if p \<noteq> [] then p @ utf16 ''.'' @ k else k) out" rule: prod.exhaust [case_names Pair])
    (auto simp: helper.simps(2) split: completion.splits)



section \<open>Termination of the flattener\<close>








section \<open>Flattening again\<close>












section \<open>The entries of the sample payloads\<close>

text \<open>
  An object whose properties are leaves is flattened into one entry for each property,
  with the key as path, when the stack has room for two nested calls.
\<close>

lemma flat_payload:
  assumes "case wide data of
             JObj ms \<Rightarrow> list_all (\<lambda>(k, v). is_leaf v) ms \<and> map (\<lambda>(k, v). leaf v k) ms = map wide_entry es
           | _ \<Rightarrow> False"
  shows "flatten (n + 2) (wide data) = Some (map wide_entry es)"
proof -
  from assms obtain ms where data: "wide data = JObj ms"
    and leaves: "list_all (\<lambda>(k, v). is_leaf v) ms"
    and es: "map (\<lambda>(k, v). leaf v k) ms = map wide_entry es"
    by (cases "wide data") auto
  have "forEach (\<lambda>(k, v). helper (Suc n) v (if [] \<noteq> [] then [] @ utf16 ''.'' @ k else k)) ms [] =
      ([] @ concat (map (\<lambda>(k, v). [leaf v k]) ms), Normal)"
    using leaves by (intro forEach_normal) (auto simp: list_all_iff leaf_pushed)
  moreover have "concat (map (\<lambda>(k, v). [leaf v k]) ms) = map (\<lambda>(k, v). leaf v k) ms"
    by (induction ms) auto
  ultimately show ?thesis
    by (simp add: flatten_def data helper.simps(2) es)
qed

lemma scenario_A_flat:
  "flatten (n + 2) (wide scenario_A) = Some (map wide_entry scenario_A_entries)"
  by (rule flat_payload) code_simp

lemma scenario_C_flat:
  "flatten (n + 2) (wide scenario_C) = Some (map wide_entry scenario_C_entries)"
  by (rule flat_payload) code_simp

lemma scenario_D_flat:
  "flatten (n + 2) (wide scenario_D) = Some (map wide_entry scenario_D_entries)"
  by (rule flat_payload) code_simp

lemma sample_first_match_flat:
  "flatten (n + 2) (wide sample_first_match) = Some (map wide_entry sample_first_match_entries)"
  by (rule flat_payload) code_simp

lemma sample_inr_ounce_flat:
  "flatten (n + 2) (wide sample_inr_ounce) = Some (map wide_entry sample_inr_ounce_entries)"
  by (rule flat_payload) code_simp

lemma sample_gram_in_usd_flat:
  "flatten (n + 2) (wide sample_gram_in_usd) = Some (map wide_entry sample_gram_in_usd_entries)"
  by (rule flat_payload) code_simp

lemma sample_generic_flat:
  "flatten (n + 2) (wide sample_generic) = Some (map wide_entry sample_generic_entries)"
  by (rule flat_payload) code_simp

lemma sample_no_factor_flat:
  "flatten (n + 2) (wide sample_no_factor) = Some (map wide_entry sample_no_factor_entries)"
  by (rule flat_payload) code_simp

lemma sample_platinum_flat:
  "flatten (n + 2) (wide sample_platinum) = Some (map wide_entry sample_platinum_entries)"
  by (rule flat_payload) code_simp

lemma sample_silver_ounce_flat:
  "flatten (n + 2) (wide sample_silver_ounce) = Some (map wide_entry sample_silver_ounce_entries)"
  by (rule flat_payload) code_simp

lemma sample_ounce_override_flat:
  "flatten (n + 2) (wide sample_ounce_override) = Some (map wide_entry sample_ounce_override_entries)"
  by (rule flat_payload) code_simp

lemma sample_text_factor_flat:
  "flatten (n + 2) (wide sample_text_factor) = Some (map wide_entry sample_text_factor_entries)"
  by (rule flat_payload) code_simp

lemma sample_unprintable_flat:
  "flatten (n + 3) (wide sample_unprintable) = Some (map wide_entry sample_unprintable_entries)"
proof -
  have data: "wide sample_unprintable =
      JObj [(utf16 ''gram_to_ounce'', JObj [(utf16 ''toString'', JStr (utf16 ''x''))])]"
    by code_simp
  have leaf: "is_leaf (JStr (utf16 ''x''))"
    by code_simp
  have entries: "[leaf (JStr (utf16 ''x'')) (utf16 ''gram_to_ounce'' @ utf16 ''.'' @ utf16 ''toString'')] =
      map wide_entry sample_unprintable_entries"
    by code_simp
  have "helper (Suc (Suc (Suc n))) (wide sample_unprintable) [] [] =
      helper (Suc n) (JStr (utf16 ''x'')) (utf16 ''gram_to_ounce'' @ utf16 ''.'' @ utf16 ''toString'') []"
    unfolding data object_one by (simp add: utf16_def)
  also have "\<dots> = (map wide_entry sample_unprintable_entries, Normal)"
    using leaf_pushed [OF leaf, of n "utf16 ''gram_to_ounce'' @ utf16 ''.'' @ utf16 ''toString''" "[]"]
    by (simp only: entries append_Nil)
  finally show ?thesis
    by (simp add: flatten_def numeral_3_eq_3)
qed

section \<open>Unit conversion\<close>

lemma strict_equal_refl: "x \<noteq> NaN \<Longrightarrow> strict_equal x x"
  by (cases x) auto

lemma dbl_not_NaN: "dbl s q \<noteq> NaN"
  by (simp add: dbl_def split: option.splits)

lemma js_div_not_NaN: "g \<noteq> NaN \<Longrightarrow> is_finite f \<Longrightarrow> truthy_num f \<Longrightarrow> js_div g f \<noteq> NaN"
  by (cases g; cases f) (auto simp: dbl_not_NaN is_finite_def)

lemma js_mul_not_NaN: "g \<noteq> NaN \<Longrightarrow> k \<noteq> 0 \<Longrightarrow> js_mul g (Num t k) \<noteq> NaN"
  by (cases g) (auto simp: dbl_not_NaN)

lemma respond_200:
  "respond currency data entries = Status200 r \<Longrightarrow>
   \<exists>g s. goldPerGram currency entries = Some g \<and> silverPerGram currency entries = Some s \<and>
     r = \<lparr>gold = convert g (gramToOunce entries data), silver = convert s (gramToOunce entries data)\<rparr>"
  unfolding respond_def by (auto split: option.splits if_splits)

lemma hundred_per_kg: "js_mul (Num False 100) (Num False 1000) = Num False 100000"
  by code_simp

lemma default_factor_value: "default_factor = Num False (4633404177270419 / 144115188075855872)"
  by code_simp

lemma coalesce_nullish: "nullish x \<Longrightarrow> coalesce x b = b"
  by (auto simp: nullish_def)

lemma coalesce_value: "v \<noteq> JNull \<Longrightarrow> coalesce (Some v) b = v"
  by (cases v) auto

text \<open>
  C7, as stated: in every successful extraction \<^verbatim>\<open>perOunce == perGram / factor\<close> and
  \<^verbatim>\<open>perKg == perGram * 1000\<close>. The comparison fails where the quotient is NaN, and the
  code checks the factor nowhere: the property \<^verbatim>\<open>gram_to_ounce\<close> of this payload is the
  string \<^verbatim>\<open>"n/a"\<close>, no factor is found among the entries, the factor is taken from
  \<^verbatim>\<open>data.gram_to_ounce\<close>, the extraction succeeds, and both prices per ounce are NaN
  (which \<^verbatim>\<open>res.json\<close> writes as \<^verbatim>\<open>null\<close>).
\<close>

theorem text_factor_counterexample:
  "(\<forall>n. flatten (n + 2) (wide sample_text_factor) = Some (map wide_entry sample_text_factor_entries)) \<and>
   gramToOunce_found sample_text_factor_entries = None \<and>
   gramToOunce sample_text_factor_entries sample_text_factor = JStr ''n/a'' \<and>
   respond ''usd'' sample_text_factor sample_text_factor_entries =
     Status200 \<lparr>gold = \<lparr>perGram = Num False 100, perOunce = NaN, perKg = Num False 100000\<rparr>,
                silver = \<lparr>perGram = Num False (5404319552844595 / 4503599627370496),
                           perOunce = NaN, perKg = Num False 1200\<rparr>\<rparr> \<and>
   js_div (Num False 100) (Number ''n/a'') = NaN \<and>
   \<not> strict_equal NaN (js_div (Num False 100) (Number ''n/a''))"
proof -
  have flat: "\<forall>n. flatten (n + 2) (wide sample_text_factor) = Some (map wide_entry sample_text_factor_entries)"
    using sample_text_factor_flat by blast
  have rest: "gramToOunce_found sample_text_factor_entries = None \<and>
   gramToOunce sample_text_factor_entries sample_text_factor = JStr ''n/a'' \<and>
   respond ''usd'' sample_text_factor sample_text_factor_entries =
     Status200 \<lparr>gold = \<lparr>perGram = Num False 100, perOunce = NaN, perKg = Num False 100000\<rparr>,
                silver = \<lparr>perGram = Num False (5404319552844595 / 4503599627370496),
                           perOunce = NaN, perKg = Num False 1200\<rparr>\<rparr> \<and>
   js_div (Num False 100) (Number ''n/a'') = NaN \<and>
   \<not> strict_equal NaN (js_div (Num False 100) (Number ''n/a''))"
    by code_simp
  show ?thesis
    using flat rest by (rule conjI)
qed

text \<open>
  C7, amended: in the body of every response \<open>200\<close>, for each metal, \<open>perKg\<close> is the
  product of \<open>perGram\<close> and 1000 and \<open>perOunce\<close> is the quotient of \<open>perGram\<close> by the
  factor, in binary64 arithmetic. The factor is the number found among the entries when
  there is one; otherwise it is read from \<^verbatim>\<open>data.gram_to_ounce_formula\<close>, or, when the
  payload has none (or \<^verbatim>\<open>null\<close>), from \<^verbatim>\<open>data.gram_to_ounce\<close>, and is 0.0321507 when the
  payload has neither. A factor read from the payload is converted by the division: a
  number is taken as it is, a string is read by \<open>Number\<close>, a boolean is 0 or 1, the
  quotient by an object is NaN, the empty array is 0, the quotient by an array of two or
  more elements is NaN, and an array of one element is read through its text
  (\<open>ToNumber\<close>); the factor is never \<^verbatim>\<open>null\<close>. The comparison \<^verbatim>\<open>==\<close> holds for
  \<open>perKg\<close> when \<open>perGram\<close> is not NaN, and for \<open>perOunce\<close> when moreover the
  factor is a finite number other than zero. A price of 100 per gram of gold gives 100000
  per kilogram.
\<close>

theorem conversion_exact:
  assumes "respond currency data entries = Status200 r"
  shows "goldPerGram currency entries = Some (perGram (gold r)) \<and>
         silverPerGram currency entries = Some (perGram (silver r)) \<and>
         perKg (gold r) = js_mul (perGram (gold r)) (Num False 1000) \<and>
         perKg (silver r) = js_mul (perGram (silver r)) (Num False 1000) \<and>
         (\<forall>x. gramToOunce entries data = JNum x \<longrightarrow>
            perOunce (gold r) = js_div (perGram (gold r)) x \<and>
            perOunce (silver r) = js_div (perGram (silver r)) x) \<and>
         (\<forall>t. gramToOunce entries data = JStr t \<longrightarrow>
            perOunce (gold r) = js_div (perGram (gold r)) (Number t) \<and>
            perOunce (silver r) = js_div (perGram (silver r)) (Number t)) \<and>
         (\<forall>b. gramToOunce entries data = JBool b \<longrightarrow>
            perOunce (gold r) = js_div (perGram (gold r)) (Num False (if b then 1 else 0)) \<and>
            perOunce (silver r) = js_div (perGram (silver r)) (Num False (if b then 1 else 0))) \<and>
         (\<forall>ms. gramToOunce entries data = JObj ms \<longrightarrow> perOunce (gold r) = NaN \<and> perOunce (silver r) = NaN) \<and>
         (gramToOunce entries data = JArr [] \<longrightarrow>
            perOunce (gold r) = js_div (perGram (gold r)) (Num False 0) \<and>
            perOunce (silver r) = js_div (perGram (silver r)) (Num False 0)) \<and>
         (\<forall>x y zs. gramToOunce entries data = JArr (x # y # zs) \<longrightarrow>
            perOunce (gold r) = NaN \<and> perOunce (silver r) = NaN) \<and>
         (\<forall>x. gramToOunce entries data = JArr [x] \<longrightarrow>
            perOunce (gold r) = js_div (perGram (gold r)) (ToNumber (JArr [x])) \<and>
            perOunce (silver r) = js_div (perGram (silver r)) (ToNumber (JArr [x]))) \<and>
         gramToOunce entries data \<noteq> JNull \<and>
         (\<forall>f. gramToOunce_found entries = Some f \<longrightarrow> gramToOunce entries data = JNum f) \<and>
         (\<forall>v. gramToOunce_found entries = None \<and> get_prop data ''gram_to_ounce_formula'' = Some v \<and> v \<noteq> JNull \<longrightarrow>
            gramToOunce entries data = v) \<and>
         (\<forall>v. gramToOunce_found entries = None \<and> nullish (get_prop data ''gram_to_ounce_formula'') \<and>
              get_prop data ''gram_to_ounce'' = Some v \<and> v \<noteq> JNull \<longrightarrow>
            gramToOunce entries data = v) \<and>
         (gramToOunce_found entries = None \<and> nullish (get_prop data ''gram_to_ounce_formula'') \<and>
          nullish (get_prop data ''gram_to_ounce'') \<longrightarrow>
            gramToOunce entries data = JNum (Num False (4633404177270419 / 144115188075855872))) \<and>
         (perGram (gold r) \<noteq> NaN \<longrightarrow> strict_equal (perKg (gold r)) (js_mul (perGram (gold r)) (Num False 1000))) \<and>
         (perGram (silver r) \<noteq> NaN \<longrightarrow> strict_equal (perKg (silver r)) (js_mul (perGram (silver r)) (Num False 1000))) \<and>
         (\<forall>x. gramToOunce entries data = JNum x \<and> is_finite x \<and> truthy_num x \<longrightarrow>
            (perGram (gold r) \<noteq> NaN \<longrightarrow> strict_equal (perOunce (gold r)) (js_div (perGram (gold r)) x)) \<and>
            (perGram (silver r) \<noteq> NaN \<longrightarrow> strict_equal (perOunce (silver r)) (js_div (perGram (silver r)) x))) \<and>
         (perGram (gold r) = Num False 100 \<longrightarrow> perKg (gold r) = Num False 100000)"
proof -
  from assms obtain g s where
    g: "goldPerGram currency entries = Some g" and
    s: "silverPerGram currency entries = Some s" and
    r: "r = \<lparr>gold = convert g (gramToOunce entries data), silver = convert s (gramToOunce entries data)\<rparr>"
    by (blast dest: respond_200)
  have fields: "perGram (gold r) = g" "perGram (silver r) = s"
    "perKg (gold r) = js_mul g (Num False 1000)" "perKg (silver r) = js_mul s (Num False 1000)"
    "perOunce (gold r) = js_div g (ToNumber (gramToOunce entries data))"
    "perOunce (silver r) = js_div s (ToNumber (gramToOunce entries data))"
    by (simp_all add: r convert_def)
  have c1: "goldPerGram currency entries = Some (perGram (gold r))"
    "silverPerGram currency entries = Some (perGram (silver r))"
    "perKg (gold r) = js_mul (perGram (gold r)) (Num False 1000)"
    "perKg (silver r) = js_mul (perGram (silver r)) (Num False 1000)"
    by (simp_all add: fields g s)
  have num: "perOunce (gold r) = js_div (perGram (gold r)) x \<and>
      perOunce (silver r) = js_div (perGram (silver r)) x"
    if "gramToOunce entries data = JNum x" for x
    using that by (simp add: fields)
  have str: "perOunce (gold r) = js_div (perGram (gold r)) (Number t) \<and>
      perOunce (silver r) = js_div (perGram (silver r)) (Number t)"
    if "gramToOunce entries data = JStr t" for t
    using that by (simp add: fields)
  have bool: "perOunce (gold r) = js_div (perGram (gold r)) (Num False (if b then 1 else 0)) \<and>
      perOunce (silver r) = js_div (perGram (silver r)) (Num False (if b then 1 else 0))"
    if "gramToOunce entries data = JBool b" for b
    using that by (simp add: fields)
  have div_NaN: "js_div x NaN = NaN" for x
    by (cases x) simp_all
  have obj: "perOunce (gold r) = NaN \<and> perOunce (silver r) = NaN"
    if "gramToOunce entries data = JObj ms" for ms
    using that by (simp add: fields div_NaN)
  have empty: "perOunce (gold r) = js_div (perGram (gold r)) (Num False 0) \<and>
      perOunce (silver r) = js_div (perGram (silver r)) (Num False 0)"
    if "gramToOunce entries data = JArr []"
    using that by (simp add: fields)
  have many: "perOunce (gold r) = NaN \<and> perOunce (silver r) = NaN"
    if "gramToOunce entries data = JArr (x # y # zs)" for x y zs
    using that by (simp add: fields div_NaN)
  have one: "perOunce (gold r) = js_div (perGram (gold r)) (ToNumber (JArr [x])) \<and>
      perOunce (silver r) = js_div (perGram (silver r)) (ToNumber (JArr [x]))"
    if "gramToOunce entries data = JArr [x]" for x
    using that by (simp add: fields)
  have coalesce_not_null: "b \<noteq> JNull \<Longrightarrow> coalesce a b \<noteq> JNull" for a b
    by (cases "(a, b)" rule: coalesce.cases) auto
  have not_null: "gramToOunce entries data \<noteq> JNull"
    by (simp add: gramToOunce_def coalesce_not_null split: option.splits)
  have found: "gramToOunce entries data = JNum f" if "gramToOunce_found entries = Some f" for f
    using that by (simp add: gramToOunce_def)
  have formula: "gramToOunce entries data = v"
    if "gramToOunce_found entries = None \<and> get_prop data ''gram_to_ounce_formula'' = Some v \<and> v \<noteq> JNull" for v
    using that by (simp add: gramToOunce_def coalesce_value)
  have plain: "gramToOunce entries data = v"
    if "gramToOunce_found entries = None \<and> nullish (get_prop data ''gram_to_ounce_formula'') \<and>
        get_prop data ''gram_to_ounce'' = Some v \<and> v \<noteq> JNull" for v
    using that by (simp add: gramToOunce_def coalesce_value coalesce_nullish)
  have default: "gramToOunce entries data = JNum (Num False (4633404177270419 / 144115188075855872))"
    if "gramToOunce_found entries = None \<and> nullish (get_prop data ''gram_to_ounce_formula'') \<and>
        nullish (get_prop data ''gram_to_ounce'')"
    using that by (simp add: gramToOunce_def coalesce_nullish default_factor_value)
  have kg: "perGram (gold r) \<noteq> NaN \<longrightarrow> strict_equal (perKg (gold r)) (js_mul (perGram (gold r)) (Num False 1000))"
    "perGram (silver r) \<noteq> NaN \<longrightarrow> strict_equal (perKg (silver r)) (js_mul (perGram (silver r)) (Num False 1000))"
    by (simp_all add: fields strict_equal_refl js_mul_not_NaN)
  have ounce: "(perGram (gold r) \<noteq> NaN \<longrightarrow> strict_equal (perOunce (gold r)) (js_div (perGram (gold r)) x)) \<and>
      (perGram (silver r) \<noteq> NaN \<longrightarrow> strict_equal (perOunce (silver r)) (js_div (perGram (silver r)) x))"
    if "gramToOunce entries data = JNum x \<and> is_finite x \<and> truthy_num x" for x
    using that by (simp add: fields strict_equal_refl js_div_not_NaN)
  have hundred: "perGram (gold r) = Num False 100 \<longrightarrow> perKg (gold r) = Num False 100000"
    using hundred_per_kg by (simp add: fields)
  show ?thesis
    using c1 num str bool obj empty many one not_null found formula plain default kg ounce hundred by blast
qed

lemma scenario_A_response:
  "respond ''usd'' scenario_A scenario_A_entries =
     Status200 \<lparr>gold = \<lparr>perGram = Num False 100,
                         perOunce = Num False (1709934197040811 / 549755813888),
                         perKg = Num False 100000\<rparr>,
                silver = \<lparr>perGram = Num False (5404319552844595 / 4503599627370496),
                           perOunce = Num False (5252917853309371 / 140737488355328),
                           perKg = Num False 1200\<rparr>\<rparr>"
  by code_simp

lemma scenario_A_factor:
  "gramToOunce_found scenario_A_entries = None"
  "nullish (get_prop scenario_A ''gram_to_ounce_formula'')"
  "nullish (get_prop scenario_A ''gram_to_ounce'')"
  "is_finite (Num False (4633404177270419 / 144115188075855872))"
  "truthy_num (Num False (4633404177270419 / 144115188075855872))"
  by code_simp+

text \<open>
  The theorem at scenario A, where the factor is the default: 100 per gram of gold,
  100000 per kilogram, and 100 / 0.0321507 per ounce.
\<close>

theorem conversion_exact_witness:
  "(\<forall>n. flatten (n + 2) (wide scenario_A) = Some (map wide_entry scenario_A_entries)) \<and>
   respond ''usd'' scenario_A scenario_A_entries =
     Status200 \<lparr>gold = \<lparr>perGram = Num False 100,
                         perOunce = Num False (1709934197040811 / 549755813888),
                         perKg = Num False 100000\<rparr>,
                silver = \<lparr>perGram = Num False (5404319552844595 / 4503599627370496),
                           perOunce = Num False (5252917853309371 / 140737488355328),
                           perKg = Num False 1200\<rparr>\<rparr> \<and>
   goldPerGram ''usd'' scenario_A_entries = Some (Num False 100) \<and>
   gramToOunce scenario_A_entries scenario_A = JNum (Num False (4633404177270419 / 144115188075855872)) \<and>
   js_mul (Num False 100) (Num False 1000) = Num False 100000 \<and>
   js_div (Num False 100) (Num False (4633404177270419 / 144115188075855872)) =
     Num False (1709934197040811 / 549755813888) \<and>
   strict_equal (Num False (1709934197040811 / 549755813888))
     (js_div (Num False 100) (Num False (4633404177270419 / 144115188075855872)))"
proof -
  define r where "r =
     \<lparr>gold = \<lparr>perGram = Num False 100,
               perOunce = Num False (1709934197040811 / 549755813888),
               perKg = Num False 100000\<rparr>,
      silver = \<lparr>perGram = Num False (5404319552844595 / 4503599627370496),
                 perOunce = Num False (5252917853309371 / 140737488355328),
                 perKg = Num False 1200\<rparr>\<rparr>"
  have fields: "perGram (gold r) = Num False 100"
    "perOunce (gold r) = Num False (1709934197040811 / 549755813888)"
    "perKg (gold r) = Num False 100000"
    by (simp_all add: r_def)
  have response: "respond ''usd'' scenario_A scenario_A_entries = Status200 r"
    unfolding r_def by (rule scenario_A_response)
  have flat: "\<forall>n. flatten (n + 2) (wide scenario_A) = Some (map wide_entry scenario_A_entries)"
    using scenario_A_flat by blast
  note facts = conversion_exact [OF response]
  have factor: "gramToOunce scenario_A_entries scenario_A = JNum (Num False (4633404177270419 / 144115188075855872))"
    using facts scenario_A_factor(1-3) by simp
  from facts have gold: "goldPerGram ''usd'' scenario_A_entries = Some (perGram (gold r))"
    by simp
  from facts have kg: "perKg (gold r) = js_mul (perGram (gold r)) (Num False 1000)"
    by simp
  from facts factor have ounce: "perOunce (gold r) =
      js_div (perGram (gold r)) (Num False (4633404177270419 / 144115188075855872))"
    by simp
  have "perGram (gold r) \<noteq> NaN"
    by (simp add: fields)
  moreover from facts
  have "\<forall>x. gramToOunce scenario_A_entries scenario_A = JNum x \<and> is_finite x \<and> truthy_num x \<longrightarrow>
      (perGram (gold r) \<noteq> NaN \<longrightarrow> strict_equal (perOunce (gold r)) (js_div (perGram (gold r)) x)) \<and>
      (perGram (silver r) \<noteq> NaN \<longrightarrow> strict_equal (perOunce (silver r)) (js_div (perGram (silver r)) x))"
    by (elim conjE)
  ultimately
  have eq: "strict_equal (perOunce (gold r))
      (js_div (perGram (gold r)) (Num False (4633404177270419 / 144115188075855872)))"
    using factor scenario_A_factor(4,5) by blast
  show ?thesis
    using flat scenario_A_response gold [unfolded fields] factor kg [unfolded fields, symmetric]
      ounce [unfolded fields, symmetric] eq [unfolded fields]
    by (intro conjI)
qed

section \<open>Failure of the extraction\<close>

text \<open>
  What the code does for C2 on every payload but the ones of the theorem below: when the
  price per gram of gold or of silver is still unresolved after the six steps and the
  prices from ounces, and the log line can print the factor, the response is \<open>502\<close> with
  the message and the first 50 (at most) of the payload's own keys. In no case is it a
  response \<open>200\<close>.
\<close>

lemma unresolved_gives_502:
  assumes "goldPerGram currency entries = None \<or> silverPerGram currency entries = None"
  shows "can_stringify (gramToOunce entries data) \<longrightarrow>
           respond currency data entries =
             Status502 ''Unexpected response format from GoldPriceZ'' (take 50 (Object_keys data))"
    and "length (take 50 (Object_keys data)) \<le> 50"
    and "\<forall>r. respond currency data entries \<noteq> Status200 r"
  using assms unfolding respond_def by (auto split: option.splits)

lemma scenario_D_response:
  "goldPerGram ''usd'' scenario_D_entries = None"
  "respond ''usd'' scenario_D scenario_D_entries =
     Status502 ''Unexpected response format from GoldPriceZ'' [''status'', ''message'']"
  by code_simp+

text \<open>
  C2 says that a payload that leaves gold or silver unresolved is answered \<open>502\<close> with
  the payload's keys. The code means to (\<^verbatim>\<open>return res.status(502).json(...)\<close>), but the
  log line before it throws on this payload: the flattener returns its one entry (with
  room for three nested calls), no price is resolved, the factor is the object taken from
  \<^verbatim>\<open>data.gram_to_ounce\<close>, and the answer is \<open>500\<close>.
\<close>

theorem unresolved_answered_500:
  "(\<forall>n. flatten (n + 3) (wide sample_unprintable) = Some (map wide_entry sample_unprintable_entries)) \<and>
   sample_unprintable_entries =
     [\<lparr>path = ''gram_to_ounce.toString'', key = ''toString'', value = JStr ''x''\<rparr>] \<and>
   goldPerGram ''usd'' sample_unprintable_entries = None \<and>
   silverPerGram ''usd'' sample_unprintable_entries = None \<and>
   gramToOunce sample_unprintable_entries sample_unprintable = JObj [(''toString'', JStr ''x'')] \<and>
   respond ''usd'' sample_unprintable sample_unprintable_entries = Status500 ''Internal server error''"
proof -
  have flat: "\<forall>n. flatten (n + 3) (wide sample_unprintable) = Some (map wide_entry sample_unprintable_entries)"
    using sample_unprintable_flat by blast
  have rest: "sample_unprintable_entries =
     [\<lparr>path = ''gram_to_ounce.toString'', key = ''toString'', value = JStr ''x''\<rparr>] \<and>
   goldPerGram ''usd'' sample_unprintable_entries = None \<and>
   silverPerGram ''usd'' sample_unprintable_entries = None \<and>
   gramToOunce sample_unprintable_entries sample_unprintable = JObj [(''toString'', JStr ''x'')] \<and>
   respond ''usd'' sample_unprintable sample_unprintable_entries = Status500 ''Internal server error''"
    by code_simp
  show ?thesis
    using flat rest by (rule conjI)
qed

section \<open>Properties of the six steps\<close>

lemma number_of_None [simp]: "number_of None = None"
  by (simp add: number_of_def)

lemma number_of_Some [simp]: "number_of (Some e) = parseNumber (value e)"
  by (simp add: number_of_def)

text \<open>A step assigns only to a variable that is still \<^verbatim>\<open>null\<close>.\<close>

lemma gold_kept:
  assumes "gold1 entries = Some n"
  shows "gold2 currency entries = Some n" "gold3 currency entries = Some n"
    "gold4 currency entries = Some n" "gold5 currency entries = Some n"
    "gold6 currency entries = Some n"
  using assms by (simp_all add: gold2_def gold3_def gold4_def gold5_def gold6_def Let_def)

lemma silver_kept:
  assumes "silver1 entries = Some n"
  shows "silver2 currency entries = Some n" "silver3 currency entries = Some n"
    "silver4 currency entries = Some n" "silver5 currency entries = Some n"
    "silver6 currency entries = Some n"
  using assms by (simp_all add: silver2_def silver3_def silver4_def silver5_def silver6_def Let_def)

subsection \<open>Step 1\<close>

text \<open>
  C3, as stated: an entry whose key contains \<^verbatim>\<open>gold\<close> and \<^verbatim>\<open>gram\<close> and whose value is
  numeric fixes the price of gold. It does not when it is not the first such entry: here
  the first one, \<^verbatim>\<open>gold_gram_unit\<close>, is not numeric, step 1 gives up, and step 3 takes
  the price 5 from the key \<^verbatim>\<open>gram\<close>, though \<^verbatim>\<open>gold_gram\<close> is 100. The currency is
  \<^verbatim>\<open>usd\<close>, so no price from ounces is in play.
\<close>

theorem gold_gram_counterexample:
  "(\<forall>n. flatten (n + 2) (wide sample_first_match) = Some (map wide_entry sample_first_match_entries)) \<and>
   sample_first_match_entries =
     [\<lparr>path = ''gold_gram_unit'', key = ''gold_gram_unit'', value = JStr ''g''\<rparr>,
      \<lparr>path = ''gold_gram'', key = ''gold_gram'', value = JNum (Num False 100)\<rparr>,
      \<lparr>path = ''gram'', key = ''gram'', value = JNum (Num False 5)\<rparr>,
      \<lparr>path = ''silver_gram'', key = ''silver_gram'', value = JNum (Num False 1)\<rparr>] \<and>
   str_includes (lc ''gold_gram'') ''gold'' \<and> str_includes (lc ''gold_gram'') ''gram'' \<and>
   parseNumber (JNum (Num False 100)) = Some (Num False 100) \<and>
   gold1 sample_first_match_entries = None \<and>
   goldPerGram ''usd'' sample_first_match_entries = Some (Num False 5) \<and>
   goldPerGram ''usd'' sample_first_match_entries \<noteq> Some (Num False 100)"
proof -
  have flat: "\<forall>n. flatten (n + 2) (wide sample_first_match) = Some (map wide_entry sample_first_match_entries)"
    using sample_first_match_flat by blast
  have rest: "sample_first_match_entries =
     [\<lparr>path = ''gold_gram_unit'', key = ''gold_gram_unit'', value = JStr ''g''\<rparr>,
      \<lparr>path = ''gold_gram'', key = ''gold_gram'', value = JNum (Num False 100)\<rparr>,
      \<lparr>path = ''gram'', key = ''gram'', value = JNum (Num False 5)\<rparr>,
      \<lparr>path = ''silver_gram'', key = ''silver_gram'', value = JNum (Num False 1)\<rparr>] \<and>
   str_includes (lc ''gold_gram'') ''gold'' \<and> str_includes (lc ''gold_gram'') ''gram'' \<and>
   parseNumber (JNum (Num False 100)) = Some (Num False 100) \<and>
   gold1 sample_first_match_entries = None \<and>
   goldPerGram ''usd'' sample_first_match_entries = Some (Num False 5) \<and>
   goldPerGram ''usd'' sample_first_match_entries \<noteq> Some (Num False 100)"
    by code_simp
  show ?thesis
    using flat rest by (rule conjI)
qed

text \<open>
  C3, amended: when the first entry whose key contains (in any case) both \<^verbatim>\<open>gold\<close> and
  \<^verbatim>\<open>gram\<close> has a numeric value, step 1 resolves the price of gold to that number and
  steps 2 to 6 keep it; the final price is that number for the currency \<^verbatim>\<open>usd\<close>, and for
  another currency it is the price from ounces when there is one and that number
  otherwise. The same holds for silver with \<^verbatim>\<open>silver\<close> and \<^verbatim>\<open>gram\<close>.
\<close>

theorem first_gram_key_resolves:
  "(find (\<lambda>e. str_includes (lc (key e)) ''gold'' \<and> str_includes (lc (key e)) ''gram'') entries = Some g \<and>
    parseNumber (value g) = Some n \<longrightarrow>
      gold1 entries = Some n \<and> gold6 currency entries = Some n \<and>
      (currency = ''usd'' \<longrightarrow> goldPerGram currency entries = Some n) \<and>
      (currency \<noteq> ''usd'' \<longrightarrow>
         goldPerGram currency entries =
           (case goldFromOunce currency entries of Some x \<Rightarrow> Some x | None \<Rightarrow> Some n))) \<and>
   (find (\<lambda>e. str_includes (lc (key e)) ''silver'' \<and> str_includes (lc (key e)) ''gram'') entries = Some s \<and>
    parseNumber (value s) = Some m \<longrightarrow>
      silver1 entries = Some m \<and> silver6 currency entries = Some m \<and>
      (currency = ''usd'' \<longrightarrow> silverPerGram currency entries = Some m) \<and>
      (currency \<noteq> ''usd'' \<longrightarrow>
         silverPerGram currency entries =
           (case silverFromOunce currency entries of Some x \<Rightarrow> Some x | None \<Rightarrow> Some m)))"
proof -
  have gold: "gold1 entries = Some n"
    if "find (\<lambda>e. str_includes (lc (key e)) ''gold'' \<and> str_includes (lc (key e)) ''gram'') entries = Some g"
      "parseNumber (value g) = Some n"
    using that by (simp add: gold1_def pickByKeyIncludes_def)
  have silver: "silver1 entries = Some m"
    if "find (\<lambda>e. str_includes (lc (key e)) ''silver'' \<and> str_includes (lc (key e)) ''gram'') entries = Some s"
      "parseNumber (value s) = Some m"
    using that by (simp add: silver1_def pickByKeyIncludes_def)
  show ?thesis
    using gold_kept(5) [of entries n currency] silver_kept(5) [of entries m currency] gold silver
    by (auto simp: goldPerGram_def silverPerGram_def prefer_ounce_def split: option.splits)
qed

lemma sample_inr_ounce_facts:
  "find (\<lambda>e. str_includes (lc (key e)) ''gold'' \<and> str_includes (lc (key e)) ''gram'') sample_inr_ounce_entries =
     Some \<lparr>path = ''gold_gram_24k'', key = ''gold_gram_24k'', value = JNum (Num False 6000)\<rparr>"
  "find (\<lambda>e. str_includes (lc (key e)) ''silver'' \<and> str_includes (lc (key e)) ''gram'') sample_inr_ounce_entries =
     Some \<lparr>path = ''silver_gram'', key = ''silver_gram'', value = JStr '' 75.5 ''\<rparr>"
  "parseNumber (JStr '' 75.5 '') = Some (Num False (151 / 2))"
  by code_simp+

text \<open>The theorem at a payload with both keys, for the currency \<^verbatim>\<open>usd\<close>.\<close>

theorem first_gram_key_resolves_witness:
  "(\<forall>n. flatten (n + 2) (wide sample_inr_ounce) = Some (map wide_entry sample_inr_ounce_entries)) \<and>
   goldPerGram ''usd'' sample_inr_ounce_entries = Some (Num False 6000) \<and>
   silverPerGram ''usd'' sample_inr_ounce_entries = Some (Num False (151 / 2))"
proof -
  have flat0: "\<forall>n. flatten (n + 2) (wide sample_inr_ounce) = Some (map wide_entry sample_inr_ounce_entries)"
    using sample_inr_ounce_flat by blast
  have rest: "goldPerGram ''usd'' sample_inr_ounce_entries = Some (Num False 6000) \<and>
   silverPerGram ''usd'' sample_inr_ounce_entries = Some (Num False (151 / 2))"
    using first_gram_key_resolves [of sample_inr_ounce_entries
        "\<lparr>path = ''gold_gram_24k'', key = ''gold_gram_24k'', value = JNum (Num False 6000)\<rparr>"
        "Num False 6000" "''usd''"
        "\<lparr>path = ''silver_gram'', key = ''silver_gram'', value = JStr '' 75.5 ''\<rparr>"
        "Num False (151 / 2)"]
      sample_inr_ounce_facts
    by simp
  show ?thesis
    using flat0 rest by (rule conjI)
qed

subsection \<open>Step 3\<close>

text \<open>
  C5, as stated: in step 3 only a key equal to \<^verbatim>\<open>gram\<close> resolves the price of gold. It
  is not the only one: a key that contains \<^verbatim>\<open>gram_in\<close> does too. For the currency
  \<^verbatim>\<open>inr\<close> and the one key \<^verbatim>\<open>gram_in_usd\<close>, no key equals \<^verbatim>\<open>gram\<close>, step 2 leaves gold
  unresolved, and step 3 resolves it.
\<close>

theorem step3_counterexample:
  "(\<forall>n. flatten (n + 2) (wide sample_gram_in_usd) = Some (map wide_entry sample_gram_in_usd_entries)) \<and>
   sample_gram_in_usd_entries =
     [\<lparr>path = ''gram_in_usd'', key = ''gram_in_usd'', value = JNum (Num False 77)\<rparr>] \<and>
   lc ''gram_in_usd'' \<noteq> ''gram'' \<and>
   gold2 ''inr'' sample_gram_in_usd_entries = None \<and>
   gold3 ''inr'' sample_gram_in_usd_entries = Some (Num False 77) \<and>
   gold3 ''inr'' sample_gram_in_usd_entries \<noteq> None"
proof -
  have flat: "\<forall>n. flatten (n + 2) (wide sample_gram_in_usd) = Some (map wide_entry sample_gram_in_usd_entries)"
    using sample_gram_in_usd_flat by blast
  have rest: "sample_gram_in_usd_entries =
     [\<lparr>path = ''gram_in_usd'', key = ''gram_in_usd'', value = JNum (Num False 77)\<rparr>] \<and>
   lc ''gram_in_usd'' \<noteq> ''gram'' \<and>
   gold2 ''inr'' sample_gram_in_usd_entries = None \<and>
   gold3 ''inr'' sample_gram_in_usd_entries = Some (Num False 77) \<and>
   gold3 ''inr'' sample_gram_in_usd_entries \<noteq> None"
    by code_simp
  show ?thesis
    using flat rest by (rule conjI)
qed

text \<open>
  C5, amended: in step 3 the price of gold, when steps 1 and 2 left it unresolved, is
  read from the first entry whose key (in lower case) equals \<^verbatim>\<open>gram\<close> or contains
  \<^verbatim>\<open>gram_in\<close>; with no such entry, and also when gold was resolved before, step 3
  leaves gold as step 2 left it. The price of silver is read likewise from the first
  entry whose key equals \<^verbatim>\<open>silver\<close> or contains \<^verbatim>\<open>silver_gram\<close>, and is left as it was
  with no such entry.
\<close>

theorem step3_generic_keys:
  "((\<forall>e \<in> set entries. lc (key e) \<noteq> ''gram'' \<and> \<not> str_includes (lc (key e)) ''gram_in'') \<longrightarrow>
      gold3 currency entries = gold2 currency entries) \<and>
   (gold2 currency entries \<noteq> None \<longrightarrow> gold3 currency entries = gold2 currency entries) \<and>
   (gold2 currency entries = None \<and>
    find (\<lambda>e. lc (key e) = ''gram'' \<or> str_includes (lc (key e)) ''gram_in'') entries = Some g \<longrightarrow>
      gold3 currency entries = parseNumber (value g)) \<and>
   ((\<forall>e \<in> set entries. lc (key e) \<noteq> ''silver'' \<and> \<not> str_includes (lc (key e)) ''silver_gram'') \<longrightarrow>
      silver3 currency entries = silver2 currency entries) \<and>
   (silver2 currency entries \<noteq> None \<longrightarrow> silver3 currency entries = silver2 currency entries) \<and>
   (silver2 currency entries = None \<and>
    find (\<lambda>e. lc (key e) = ''silver'' \<or> str_includes (lc (key e)) ''silver_gram'') entries = Some s \<longrightarrow>
      silver3 currency entries = parseNumber (value s))"
proof -
  have g: "find (\<lambda>e. lc (key e) = ''gram'' \<or> str_includes (lc (key e)) ''gram_in'') entries = None"
    if "\<forall>e \<in> set entries. lc (key e) \<noteq> ''gram'' \<and> \<not> str_includes (lc (key e)) ''gram_in''"
    using that by (simp add: find_None_iff)
  have s: "find (\<lambda>e. lc (key e) = ''silver'' \<or> str_includes (lc (key e)) ''silver_gram'') entries = None"
    if "\<forall>e \<in> set entries. lc (key e) \<noteq> ''silver'' \<and> \<not> str_includes (lc (key e)) ''silver_gram''"
    using that by (simp add: find_None_iff)
  show ?thesis
    using g s by (auto simp: gold3_def silver3_def)
qed

lemma sample_generic_facts:
  "gold2 ''usd'' sample_generic_entries = None"
  "find (\<lambda>e. lc (key e) = ''gram'' \<or> str_includes (lc (key e)) ''gram_in'') sample_generic_entries =
     Some \<lparr>path = ''Gram'', key = ''Gram'', value = JStr ''61.5''\<rparr>"
  "silver2 ''usd'' sample_generic_entries = None"
  "find (\<lambda>e. lc (key e) = ''silver'' \<or> str_includes (lc (key e)) ''silver_gram'') sample_generic_entries =
     Some \<lparr>path = ''SILVER'', key = ''SILVER'', value = JNum (Num False 2)\<rparr>"
  "parseNumber (JStr ''61.5'') = Some (Num False (123 / 2))"
  by code_simp+

lemma sample_gram_in_usd_facts:
  "sample_gram_in_usd_entries =
     [\<lparr>path = ''gram_in_usd'', key = ''gram_in_usd'', value = JNum (Num False 77)\<rparr>]"
  "lc ''gram_in_usd'' \<noteq> ''silver''" "\<not> str_includes (lc ''gram_in_usd'') ''silver_gram''"
  "silver2 ''inr'' sample_gram_in_usd_entries = None"
  by code_simp+

text \<open>
  The theorem at a payload with the keys \<^verbatim>\<open>Gram\<close> and \<^verbatim>\<open>SILVER\<close>, and for silver at the
  payload with the key \<^verbatim>\<open>gram_in_usd\<close> only.
\<close>

theorem step3_generic_keys_witness:
  "(\<forall>n. flatten (n + 2) (wide sample_generic) = Some (map wide_entry sample_generic_entries)) \<and>
   (\<forall>n. flatten (n + 2) (wide sample_gram_in_usd) = Some (map wide_entry sample_gram_in_usd_entries)) \<and>
   gold3 ''usd'' sample_generic_entries = Some (Num False (123 / 2)) \<and>
   silver3 ''usd'' sample_generic_entries = Some (Num False 2) \<and>
   silver3 ''inr'' sample_gram_in_usd_entries = None"
proof -
  have flat0: "\<forall>n. flatten (n + 2) (wide sample_generic) = Some (map wide_entry sample_generic_entries)"
    using sample_generic_flat by blast
  have flat1: "\<forall>n. flatten (n + 2) (wide sample_gram_in_usd) = Some (map wide_entry sample_gram_in_usd_entries)"
    using sample_gram_in_usd_flat by blast
  have rest: "gold3 ''usd'' sample_generic_entries = Some (Num False (123 / 2)) \<and>
   silver3 ''usd'' sample_generic_entries = Some (Num False 2) \<and>
   silver3 ''inr'' sample_gram_in_usd_entries = None"
    proof -
      from step3_generic_keys [of sample_generic_entries "''usd''"
          "\<lparr>path = ''Gram'', key = ''Gram'', value = JStr ''61.5''\<rparr>"
          "\<lparr>path = ''SILVER'', key = ''SILVER'', value = JNum (Num False 2)\<rparr>"]
      have "gold3 ''usd'' sample_generic_entries = Some (Num False (123 / 2))"
        "silver3 ''usd'' sample_generic_entries = Some (Num False 2)"
        using sample_generic_facts by simp_all
      moreover from step3_generic_keys [of sample_gram_in_usd_entries "''inr''"]
      have "silver3 ''inr'' sample_gram_in_usd_entries = None"
        using sample_gram_in_usd_facts(2-) by (simp add: sample_gram_in_usd_facts(1))
      ultimately show ?thesis by simp
    qed
  from flat1 rest have "(\<forall>n. flatten (n + 2) (wide sample_gram_in_usd) = Some (map wide_entry sample_gram_in_usd_entries)) \<and>
   (gold3 ''usd'' sample_generic_entries = Some (Num False (123 / 2)) \<and>
   silver3 ''usd'' sample_generic_entries = Some (Num False 2) \<and>
   silver3 ''inr'' sample_gram_in_usd_entries = None)"
    by (rule conjI)
  with flat0 show ?thesis
    by (rule conjI)
qed

subsection \<open>Prices from ounces\<close>

text \<open>
  C1, as stated: with a numeric \<^verbatim>\<open>silver_ounce_in_inr\<close> the final price of silver is that
  value times the factor, the default 0.0321507 when the payload has no factor. With no
  factor among the entries the code computes no price from ounces at all
  (\<^verbatim>\<open>gramToOunce\<close> is still \<^verbatim>\<open>null\<close> there; the default is assigned later): the price of
  silver stays 1.2 and is not 93000 times the default factor.
\<close>

theorem default_factor_counterexample:
  "(\<forall>n. flatten (n + 2) (wide sample_no_factor) = Some (map wide_entry sample_no_factor_entries)) \<and>
   sOunce ''inr'' sample_no_factor_entries =
     Some \<lparr>path = ''silver_ounce_in_inr'', key = ''silver_ounce_in_inr'', value = JNum (Num False 93000)\<rparr> \<and>
   parseNumber (JNum (Num False 93000)) = Some (Num False 93000) \<and>
   gramToOunce_found sample_no_factor_entries = None \<and>
   gramToOunce sample_no_factor_entries sample_no_factor = JNum default_factor \<and>
   js_mul (Num False 93000) default_factor = Num False (3287556369675819 / 1099511627776) \<and>
   silverPerGram ''inr'' sample_no_factor_entries = Some (Num False (5404319552844595 / 4503599627370496)) \<and>
   silverPerGram ''inr'' sample_no_factor_entries \<noteq> Some (js_mul (Num False 93000) default_factor)"
proof -
  have flat: "\<forall>n. flatten (n + 2) (wide sample_no_factor) = Some (map wide_entry sample_no_factor_entries)"
    using sample_no_factor_flat by blast
  have rest: "sOunce ''inr'' sample_no_factor_entries =
     Some \<lparr>path = ''silver_ounce_in_inr'', key = ''silver_ounce_in_inr'', value = JNum (Num False 93000)\<rparr> \<and>
   parseNumber (JNum (Num False 93000)) = Some (Num False 93000) \<and>
   gramToOunce_found sample_no_factor_entries = None \<and>
   gramToOunce sample_no_factor_entries sample_no_factor = JNum default_factor \<and>
   js_mul (Num False 93000) default_factor = Num False (3287556369675819 / 1099511627776) \<and>
   silverPerGram ''inr'' sample_no_factor_entries = Some (Num False (5404319552844595 / 4503599627370496)) \<and>
   silverPerGram ''inr'' sample_no_factor_entries \<noteq> Some (js_mul (Num False 93000) default_factor)"
    by code_simp
  show ?thesis
    using flat rest by (rule conjI)
qed

text \<open>
  C1, amended: for a currency other than \<^verbatim>\<open>usd\<close>, when the extractor locates the field
  of a metal per ounce with a numeric value and the entries hold a factor (the first key
  that contains \<^verbatim>\<open>gram_to_ounce\<close>) that is a number other than zero, the final price per
  gram of that metal is the value per ounce times that factor, whatever steps 1 to 6
  resolved. When the entries hold no such factor, no price from ounces is computed and
  the final prices are those of steps 1 to 6. For the currency \<^verbatim>\<open>usd\<close> the price from
  ounces is used only for a metal that steps 1 to 6 left unresolved.
\<close>

theorem ounce_price_preferred:
  "(currency \<noteq> ''usd'' \<and> gramToOunce_found entries = Some f \<and> truthy_num f \<longrightarrow>
      (sOunce currency entries = Some s \<and> parseNumber (value s) = Some m \<longrightarrow>
         silverFromOunce currency entries = Some (js_mul m f) \<and>
         silverPerGram currency entries = Some (js_mul m f)) \<and>
      (gOunce currency entries = Some g \<and> parseNumber (value g) = Some n \<longrightarrow>
         goldFromOunce currency entries = Some (js_mul n f) \<and>
         goldPerGram currency entries = Some (js_mul n f))) \<and>
   ((gramToOunce_found entries = None \<or> (\<exists>z. gramToOunce_found entries = Some z \<and> \<not> truthy_num z)) \<longrightarrow>
      silverFromOunce currency entries = None \<and> goldFromOunce currency entries = None \<and>
      silverPerGram currency entries = silver6 currency entries \<and>
      goldPerGram currency entries = gold6 currency entries) \<and>
   (currency = ''usd'' \<longrightarrow>
      silverPerGram currency entries =
        (case silver6 currency entries of Some x \<Rightarrow> Some x | None \<Rightarrow> silverFromOunce currency entries) \<and>
      goldPerGram currency entries =
        (case gold6 currency entries of Some x \<Rightarrow> Some x | None \<Rightarrow> goldFromOunce currency entries))"
proof -
  have w1: "fromOunce (Some e) (Some f) = Some (js_mul k f)"
    if "truthy_num f" "parseNumber (value e) = Some k" for e k
    using that by (simp add: fromOunce_def)
  have w2: "prefer_ounce currency v (Some x) = Some x" if "currency \<noteq> ''usd''" for v x
    using that by (simp add: prefer_ounce_def)
  have n1: "fromOunce x z = None"
    if "z = None \<or> (\<exists>y. z = Some y \<and> \<not> truthy_num y)" for x z
    using that by (auto simp: fromOunce_def split: option.splits)
  have n2: "prefer_ounce currency v None = v" for v
    by (simp add: prefer_ounce_def)
  have usd: "prefer_ounce ''usd'' v w = (case v of Some x \<Rightarrow> Some x | None \<Rightarrow> w)" for v w
    by (cases v; cases w) (simp_all add: prefer_ounce_def)
  have a: "silverFromOunce currency entries = Some (js_mul m f) \<and>
           silverPerGram currency entries = Some (js_mul m f)"
    if "currency \<noteq> ''usd''" "gramToOunce_found entries = Some f" "truthy_num f"
      "sOunce currency entries = Some s" "parseNumber (value s) = Some m"
    using w1 [OF that(3,5)] w2 [OF that(1)] that(2,4) by (simp add: silverFromOunce_def silverPerGram_def)
  have b: "goldFromOunce currency entries = Some (js_mul n f) \<and>
           goldPerGram currency entries = Some (js_mul n f)"
    if "currency \<noteq> ''usd''" "gramToOunce_found entries = Some f" "truthy_num f"
      "gOunce currency entries = Some g" "parseNumber (value g) = Some n"
    using w1 [OF that(3,5)] w2 [OF that(1)] that(2,4) by (simp add: goldFromOunce_def goldPerGram_def)
  have c: "silverFromOunce currency entries = None \<and> goldFromOunce currency entries = None \<and>
           silverPerGram currency entries = silver6 currency entries \<and>
           goldPerGram currency entries = gold6 currency entries"
    if "gramToOunce_found entries = None \<or> (\<exists>z. gramToOunce_found entries = Some z \<and> \<not> truthy_num z)"
    using n1 [OF that] n2
    by (simp add: silverFromOunce_def silverPerGram_def goldFromOunce_def goldPerGram_def)
  have d: "silverPerGram ''usd'' entries =
             (case silver6 ''usd'' entries of Some x \<Rightarrow> Some x | None \<Rightarrow> silverFromOunce ''usd'' entries) \<and>
           goldPerGram ''usd'' entries =
             (case gold6 ''usd'' entries of Some x \<Rightarrow> Some x | None \<Rightarrow> goldFromOunce ''usd'' entries)"
    by (simp add: silverPerGram_def goldPerGram_def usd)
  show ?thesis
    using a b c d by blast
qed

lemma sample_inr_ounce_lookup:
  "gramToOunce_found sample_inr_ounce_entries = Some (Num False (4633404177270419 / 144115188075855872))"
  "sOunce ''inr'' sample_inr_ounce_entries =
     Some \<lparr>path = ''silver_ounce_in_inr'', key = ''silver_ounce_in_inr'', value = JNum (Num False 93000)\<rparr>"
  "js_mul (Num False 93000) (Num False (4633404177270419 / 144115188075855872)) =
     Num False (3287556369675819 / 1099511627776)"
  "silver6 ''inr'' sample_inr_ounce_entries = Some (Num False (151 / 2))"
  by code_simp+

text \<open>
  The theorem at scenario E: \<^verbatim>\<open>silver_ounce_in_inr\<close> is 93000, the factor 0.0321507 is in
  the payload, and the price 75.5 of step 1 gives way to 2990.0151.
\<close>

theorem ounce_price_preferred_witness:
  "(\<forall>n. flatten (n + 2) (wide sample_inr_ounce) = Some (map wide_entry sample_inr_ounce_entries)) \<and>
   silver6 ''inr'' sample_inr_ounce_entries = Some (Num False (151 / 2)) \<and>
   silverPerGram ''inr'' sample_inr_ounce_entries = Some (Num False (3287556369675819 / 1099511627776))"
proof -
  have flat0: "\<forall>n. flatten (n + 2) (wide sample_inr_ounce) = Some (map wide_entry sample_inr_ounce_entries)"
    using sample_inr_ounce_flat by blast
  have rest: "silver6 ''inr'' sample_inr_ounce_entries = Some (Num False (151 / 2)) \<and>
   silverPerGram ''inr'' sample_inr_ounce_entries = Some (Num False (3287556369675819 / 1099511627776))"
    using ounce_price_preferred [of "''inr''" sample_inr_ounce_entries
        "Num False (4633404177270419 / 144115188075855872)"
        "\<lparr>path = ''silver_ounce_in_inr'', key = ''silver_ounce_in_inr'', value = JNum (Num False 93000)\<rparr>"
        "Num False 93000"]
      sample_inr_ounce_lookup
    by simp
  show ?thesis
    using flat0 rest by (rule conjI)
qed

subsection \<open>The gold price taken from the silver ounce\<close>

lemma find_first: "\<forall>x \<in> set pre. \<not> P x \<Longrightarrow> P e \<Longrightarrow> find P (pre @ e # post) = Some e"
  by (induction pre) auto

lemma includes_middle: "str_includes (a @ sub @ b) sub"
  by (simp add: str_includes_def)

lemma includes_end: "str_includes (a @ sub) sub"
  using includes_middle [of a sub "[]"] by simp

lemma includes_trans: "str_includes s t \<Longrightarrow> str_includes t u \<Longrightarrow> str_includes s u"
  unfolding str_includes_def by (rule sublist_order.order.trans)

lemma endsWith_includes: "endsWith s t \<Longrightarrow> str_includes s t"
  by (simp add: endsWith_def str_includes_def suffix_imp_sublist)

lemma silver_ounce_key_includes:
  "str_includes (''silver_ounce_in_'' @ currency) ''ounce''"
  "str_includes (''silver_ounce_in_'' @ currency) currency"
  using includes_middle [of "''silver_''" "''ounce''" "''_in_'' @ currency"]
    includes_end [of "''silver_ounce_in_''" currency]
  by simp_all

lemma fromOunce_factor:
  "parseNumber (value e) = Some k \<Longrightarrow> truthy_num f \<Longrightarrow> fromOunce (Some e) (Some f) = Some (js_mul k f)"
  by (simp add: fromOunce_def)

lemma prefer_ounce_override: "currency \<noteq> ''usd'' \<Longrightarrow> prefer_ounce currency v (Some x) = Some x"
  by (simp add: prefer_ounce_def)

text \<open>
  C10, as stated: with a factor among the entries, a numeric \<^verbatim>\<open>silver_ounce_in_inr\<close> and
  no \<^verbatim>\<open>ounce_in_inr\<close>, the gold lookup falls on the silver entry and both final prices
  are equal. The lookup takes the first entry whose key contains \<^verbatim>\<open>ounce\<close> and the
  currency, and that may be another entry: here \<^verbatim>\<open>platinum_ounce_in_inr\<close> comes first, and
  gold and silver end with different prices.
\<close>

theorem silver_ounce_counterexample:
  "(\<forall>n. flatten (n + 2) (wide sample_platinum) = Some (map wide_entry sample_platinum_entries)) \<and>
   sample_platinum_entries =
     [\<lparr>path = ''gram_to_ounce_formula'', key = ''gram_to_ounce_formula'',
        value = JNum (Num False (4633404177270419 / 144115188075855872))\<rparr>,
      \<lparr>path = ''platinum_ounce_in_inr'', key = ''platinum_ounce_in_inr'', value = JNum (Num False 90000)\<rparr>,
      \<lparr>path = ''silver_ounce_in_inr'', key = ''silver_ounce_in_inr'', value = JNum (Num False 93000)\<rparr>] \<and>
   gramToOunce_found sample_platinum_entries = Some (Num False (4633404177270419 / 144115188075855872)) \<and>
   findKey sample_platinum_entries ''ounce_in_inr'' = None \<and>
   gOunce ''inr'' sample_platinum_entries =
     Some \<lparr>path = ''platinum_ounce_in_inr'', key = ''platinum_ounce_in_inr'', value = JNum (Num False 90000)\<rparr> \<and>
   goldPerGram ''inr'' sample_platinum_entries = Some (Num False (6363012328404811 / 2199023255552)) \<and>
   silverPerGram ''inr'' sample_platinum_entries = Some (Num False (3287556369675819 / 1099511627776)) \<and>
   goldPerGram ''inr'' sample_platinum_entries \<noteq> silverPerGram ''inr'' sample_platinum_entries"
proof -
  have flat: "\<forall>n. flatten (n + 2) (wide sample_platinum) = Some (map wide_entry sample_platinum_entries)"
    using sample_platinum_flat by blast
  have rest: "sample_platinum_entries =
     [\<lparr>path = ''gram_to_ounce_formula'', key = ''gram_to_ounce_formula'',
        value = JNum (Num False (4633404177270419 / 144115188075855872))\<rparr>,
      \<lparr>path = ''platinum_ounce_in_inr'', key = ''platinum_ounce_in_inr'', value = JNum (Num False 90000)\<rparr>,
      \<lparr>path = ''silver_ounce_in_inr'', key = ''silver_ounce_in_inr'', value = JNum (Num False 93000)\<rparr>] \<and>
   gramToOunce_found sample_platinum_entries = Some (Num False (4633404177270419 / 144115188075855872)) \<and>
   findKey sample_platinum_entries ''ounce_in_inr'' = None \<and>
   gOunce ''inr'' sample_platinum_entries =
     Some \<lparr>path = ''platinum_ounce_in_inr'', key = ''platinum_ounce_in_inr'', value = JNum (Num False 90000)\<rparr> \<and>
   goldPerGram ''inr'' sample_platinum_entries = Some (Num False (6363012328404811 / 2199023255552)) \<and>
   silverPerGram ''inr'' sample_platinum_entries = Some (Num False (3287556369675819 / 1099511627776)) \<and>
   goldPerGram ''inr'' sample_platinum_entries \<noteq> silverPerGram ''inr'' sample_platinum_entries"
    by code_simp
  show ?thesis
    using flat rest by (rule conjI)
qed

text \<open>
  C10, amended: for a currency other than \<^verbatim>\<open>usd\<close>, when the entries hold a factor that
  is a number other than zero, no entry has the key \<^verbatim>\<open>ounce_in_<currency>\<close> or a path
  that ends in \<^verbatim>\<open>.ounce_in_<currency>\<close>, an entry with the key
  \<^verbatim>\<open>silver_ounce_in_<currency>\<close> has a numeric value, and no entry before it has a key
  that contains both \<^verbatim>\<open>ounce\<close> and the currency (or a path that ends in
  \<^verbatim>\<open>.silver_ounce_in_<currency>\<close>), then the gold lookup finds that silver entry, and the
  final prices per gram of gold and of silver are both the silver price per ounce times
  the factor.
\<close>

theorem gold_from_silver_ounce:
  assumes "currency \<noteq> ''usd''"
    and "gramToOunce_found entries = Some f" and "truthy_num f"
    and "entries = pre @ s # post"
    and "lc (key s) = ''silver_ounce_in_'' @ currency" and "parseNumber (value s) = Some m"
    and "\<forall>x \<in> set pre. \<not> (str_includes (lc (key x)) ''ounce'' \<and> str_includes (lc (key x)) currency) \<and>
                        \<not> endsWith (lc (path x)) (''.silver_ounce_in_'' @ currency)"
    and "\<forall>x \<in> set entries. lc (key x) \<noteq> ''ounce_in_'' @ currency \<and>
                            \<not> endsWith (lc (path x)) (''.ounce_in_'' @ currency)"
  shows "gOunce currency entries = Some s \<and> sOunce currency entries = Some s \<and>
         goldPerGram currency entries = Some (js_mul m f) \<and>
         silverPerGram currency entries = Some (js_mul m f) \<and>
         goldPerGram currency entries = silverPerGram currency entries"
proof -
  have key_s: "str_includes (lc (key s)) ''ounce''" "str_includes (lc (key s)) currency"
    using assms(5) silver_ounce_key_includes by simp_all
  have "\<forall>x \<in> set pre. \<not> (lc (key x) = ''silver_ounce_in_'' @ currency \<or>
                           endsWith (lc (path x)) (''.'' @ ''silver_ounce_in_'' @ currency))"
    using assms(7) silver_ounce_key_includes by auto
  then have "findKey entries (''silver_ounce_in_'' @ currency) = Some s"
    unfolding findKey_def assms(4) using assms(5) by (intro find_first) simp_all
  then have silver: "sOunce currency entries = Some s"
    by (simp add: sOunce_def)
  have "findKey entries (''ounce_in_'' @ currency) = None"
    unfolding findKey_def using assms(8) by (simp add: find_None_iff)
  moreover have "find (\<lambda>e. str_includes (lc (key e)) ''ounce'' \<and> str_includes (lc (key e)) currency) entries = Some s"
    unfolding assms(4) using assms(7) key_s by (intro find_first) simp_all
  ultimately have gold: "gOunce currency entries = Some s"
    by (simp add: gOunce_def)
  have from_ounce: "fromOunce (Some s) (Some f) = Some (js_mul m f)"
    using assms(6,3) by (rule fromOunce_factor)
  have "goldPerGram currency entries = Some (js_mul m f)"
    by (simp add: goldPerGram_def goldFromOunce_def gold assms(2) from_ounce prefer_ounce_override [OF assms(1)])
  moreover have "silverPerGram currency entries = Some (js_mul m f)"
    by (simp add: silverPerGram_def silverFromOunce_def silver assms(2) from_ounce prefer_ounce_override [OF assms(1)])
  ultimately show ?thesis using gold silver by simp
qed

lemma sample_silver_ounce_facts:
  "sample_silver_ounce_entries =
     [\<lparr>path = ''gram_to_ounce_formula'', key = ''gram_to_ounce_formula'',
        value = JNum (Num False (4633404177270419 / 144115188075855872))\<rparr>] @
     \<lparr>path = ''silver_ounce_in_inr'', key = ''silver_ounce_in_inr'', value = JNum (Num False 93000)\<rparr> # []"
  "gramToOunce_found sample_silver_ounce_entries = Some (Num False (4633404177270419 / 144115188075855872))"
  "lc ''silver_ounce_in_inr'' = ''silver_ounce_in_'' @ ''inr''"
  "\<not> str_includes (lc ''gram_to_ounce_formula'') ''inr''"
  "\<not> endsWith (lc ''gram_to_ounce_formula'') (''.silver_ounce_in_'' @ ''inr'')"
  "lc ''gram_to_ounce_formula'' \<noteq> ''ounce_in_'' @ ''inr''"
  "\<not> endsWith (lc ''gram_to_ounce_formula'') (''.ounce_in_'' @ ''inr'')"
  "lc ''silver_ounce_in_inr'' \<noteq> ''ounce_in_'' @ ''inr''"
  "\<not> endsWith (lc ''silver_ounce_in_inr'') (''.ounce_in_'' @ ''inr'')"
  "js_mul (Num False 93000) (Num False (4633404177270419 / 144115188075855872)) =
     Num False (3287556369675819 / 1099511627776)"
  by code_simp+

text \<open>The theorem at a payload with the factor and \<^verbatim>\<open>silver_ounce_in_inr\<close> only.\<close>

theorem gold_from_silver_ounce_witness:
  "(\<forall>n. flatten (n + 2) (wide sample_silver_ounce) = Some (map wide_entry sample_silver_ounce_entries)) \<and>
   goldPerGram ''inr'' sample_silver_ounce_entries = Some (Num False (3287556369675819 / 1099511627776)) \<and>
   silverPerGram ''inr'' sample_silver_ounce_entries = Some (Num False (3287556369675819 / 1099511627776))"
proof -
  have flat0: "\<forall>n. flatten (n + 2) (wide sample_silver_ounce) = Some (map wide_entry sample_silver_ounce_entries)"
    using sample_silver_ounce_flat by blast
  have rest: "goldPerGram ''inr'' sample_silver_ounce_entries = Some (Num False (3287556369675819 / 1099511627776)) \<and>
   silverPerGram ''inr'' sample_silver_ounce_entries = Some (Num False (3287556369675819 / 1099511627776))"
    proof -
      have "goldPerGram ''inr'' sample_silver_ounce_entries =
              Some (js_mul (Num False 93000) (Num False (4633404177270419 / 144115188075855872))) \<and>
            silverPerGram ''inr'' sample_silver_ounce_entries =
              Some (js_mul (Num False 93000) (Num False (4633404177270419 / 144115188075855872)))"
        using gold_from_silver_ounce [of "''inr''" sample_silver_ounce_entries
            "Num False (4633404177270419 / 144115188075855872)"
            "[\<lparr>path = ''gram_to_ounce_formula'', key = ''gram_to_ounce_formula'',
                value = JNum (Num False (4633404177270419 / 144115188075855872))\<rparr>]"
            "\<lparr>path = ''silver_ounce_in_inr'', key = ''silver_ounce_in_inr'', value = JNum (Num False 93000)\<rparr>"
            "[]" "Num False 93000"]
          sample_silver_ounce_facts(2-9)
        by (simp add: sample_silver_ounce_facts(1))
      then show ?thesis by (simp only: sample_silver_ounce_facts(10))
    qed
  show ?thesis
    using flat0 rest by (rule conjI)
qed

subsection \<open>Step 5\<close>

text \<open>
  The key of the sort orders numbers other than NaN as \<^verbatim>\<open>>=\<close> does, and \<open>parseNumber\<close>
  gives no NaN.
\<close>

lemma desc_key_ge: "a \<noteq> NaN \<Longrightarrow> b \<noteq> NaN \<Longrightarrow> (desc_key a \<le> desc_key b) = js_ge a b"
  by (cases a rule: desc_key.cases; cases b rule: desc_key.cases)
    (auto simp: with_sign_def less_eq_prod_def)

lemma parseNumber_not_NaN: "parseNumber v = Some n \<Longrightarrow> n \<noteq> NaN"
  by (cases v) (auto simp: Let_def split: if_splits)

lemma fst_with_num: "map fst (map with_num xs) = xs"
  by (induction xs) (simp_all add: with_num_def)

lemma mset_fst_sort_key: "mset (map fst (sort_key f ys)) = mset (map fst ys)"
  by (metis mset_map mset_sort)

lemma gramCandidates_entries:
  "mset (map fst (gramCandidates currency entries)) =
     mset (filter (\<lambda>e. str_includes (lc (key e)) ''gram'' \<and> parseNumber (value e) \<noteq> None \<and>
                        (currency = ''usd'' \<or> \<not> str_includes (lc (key e)) ''usd''))
             entries)"
  unfolding gramCandidates_def mset_fst_sort_key fst_with_num ..

lemma gramCandidates_numbers:
  "c \<in> set (gramCandidates currency entries) \<Longrightarrow> parseNumber (value (fst c)) = Some (snd c)"
  unfolding gramCandidates_def by (auto simp: with_num_def)

lemma sorted_key_ge:
  "sorted (map desc_key ns) \<Longrightarrow> \<forall>n \<in> set ns. n \<noteq> NaN \<Longrightarrow> sorted_wrt js_ge ns"
  by (induction ns) (auto simp: desc_key_ge)

lemma gramCandidates_sorted: "sorted_wrt js_ge (map snd (gramCandidates currency entries))"
proof -
  have "sorted (map (\<lambda>c. desc_key (snd c)) (gramCandidates currency entries))"
    unfolding gramCandidates_def by (rule sorted_sort_key)
  then have "sorted (map desc_key (map snd (gramCandidates currency entries)))"
    by (simp add: comp_def)
  moreover have "\<forall>n \<in> set (map snd (gramCandidates currency entries)). n \<noteq> NaN"
    using gramCandidates_numbers parseNumber_not_NaN by fastforce
  ultimately show ?thesis
    by (rule sorted_key_ge)
qed

lemma step5_gold:
  "gold4 currency entries = None \<Longrightarrow>
   gold5 currency entries = (case gramCandidates currency entries of [] \<Rightarrow> None | c # cs \<Rightarrow> Some (snd c))"
  by (cases "gramCandidates currency entries") (simp_all add: gold5_def Let_def)

lemma step5_silver:
  "silver4 currency entries = None \<Longrightarrow>
   silver5 currency entries =
     (case gramCandidates currency entries of c # d # cs \<Rightarrow> Some (snd d) | _ \<Rightarrow> None)"
  by (cases "gramCandidates currency entries" rule: list.exhaust [case_names Nil Cons])
    (auto simp: silver5_def Let_def split: list.splits)

lemma number_105: "dbl False (105 / 100) = Num False (4728779608739021 / 4503599627370496)"
  by code_simp

lemma two_candidates:
  assumes "mset (map snd cs) = {#Num False 85, dbl False (105 / 100)#}"
    and "sorted_wrt js_ge (map snd cs)"
  shows "\<exists>c d. cs = [c, d] \<and> snd c = Num False 85 \<and> snd d = dbl False (105 / 100)"
proof -
  from assms(1) have "size (mset (map snd cs)) = 2" by simp
  then have "length cs = 2" by simp
  then obtain c d where cs: "cs = [c, d]"
    by (auto simp: length_Suc_conv numeral_2_eq_2)
  with assms(1) have "(snd c = Num False 85 \<and> snd d = dbl False (105 / 100)) \<or>
      (snd c = dbl False (105 / 100) \<and> snd d = Num False 85)"
    by (auto simp: add_eq_conv_ex)
  moreover have "\<not> js_ge (dbl False (105 / 100)) (Num False 85)"
    unfolding number_105 by (simp add: with_sign_def)
  ultimately show ?thesis using assms(2) cs by auto
qed

text \<open>No price comes from ounces without a factor or without a numeric price per ounce.\<close>

lemma fromOunce_None:
  "f = None \<or> (\<exists>z. f = Some z \<and> \<not> truthy_num z) \<or> number_of ounce = None \<Longrightarrow> fromOunce ounce f = None"
  by (auto simp: fromOunce_def number_of_def split: option.splits)

lemma prefer_ounce_resolved:
  "currency = ''usd'' \<or> w = None \<Longrightarrow> prefer_ounce currency (Some x) w = Some x"
  by (auto simp: prefer_ounce_def)

text \<open>
  C4, as stated: a payload with exactly two numeric entries with \<^verbatim>\<open>gram\<close> in the key, 85
  and 1.05, and no key that names a metal, yields 85 per gram of gold. Not when a price
  per ounce overrides it: here the keys \<^verbatim>\<open>price_gram\<close> and \<^verbatim>\<open>gram_to_ounce\<close> are the two
  candidates, steps 1 to 4 resolve nothing, step 5 gives gold 85 and silver 1.05, and
  then, the currency being \<^verbatim>\<open>inr\<close>, the price of gold becomes the 1000 of
  \<^verbatim>\<open>ounce_in_inr\<close> times the factor 1.05 found under \<^verbatim>\<open>gram_to_ounce\<close>: 1050.
\<close>

theorem ounce_override_counterexample:
  "(\<forall>n. flatten (n + 2) (wide sample_ounce_override) = Some (map wide_entry sample_ounce_override_entries)) \<and>
   list_all (\<lambda>e. \<not> str_includes (lc (key e)) ''gold'' \<and> \<not> str_includes (lc (key e)) ''silver'')
     sample_ounce_override_entries \<and>
   gold4 ''inr'' sample_ounce_override_entries = None \<and>
   silver4 ''inr'' sample_ounce_override_entries = None \<and>
   map (\<lambda>c. (key (fst c), snd c)) (gramCandidates ''inr'' sample_ounce_override_entries) =
     [(''price_gram'', Num False 85), (''gram_to_ounce'', dbl False (105 / 100))] \<and>
   gold5 ''inr'' sample_ounce_override_entries = Some (Num False 85) \<and>
   silver5 ''inr'' sample_ounce_override_entries = Some (dbl False (105 / 100)) \<and>
   goldFromOunce ''inr'' sample_ounce_override_entries = Some (Num False 1050) \<and>
   goldPerGram ''inr'' sample_ounce_override_entries = Some (Num False 1050) \<and>
   goldPerGram ''inr'' sample_ounce_override_entries \<noteq> Some (Num False 85) \<and>
   respond ''inr'' sample_ounce_override sample_ounce_override_entries =
     Status200 \<lparr>gold = \<lparr>perGram = Num False 1050, perOunce = Num False 1000, perKg = Num False 1050000\<rparr>,
                silver = \<lparr>perGram = Num False (4728779608739021 / 4503599627370496),
                           perOunce = Num False 1, perKg = Num False 1050\<rparr>\<rparr>"
proof -
  have flat: "\<forall>n. flatten (n + 2) (wide sample_ounce_override) = Some (map wide_entry sample_ounce_override_entries)"
    using sample_ounce_override_flat by blast
  have rest: "list_all (\<lambda>e. \<not> str_includes (lc (key e)) ''gold'' \<and> \<not> str_includes (lc (key e)) ''silver'')
     sample_ounce_override_entries \<and>
   gold4 ''inr'' sample_ounce_override_entries = None \<and>
   silver4 ''inr'' sample_ounce_override_entries = None \<and>
   map (\<lambda>c. (key (fst c), snd c)) (gramCandidates ''inr'' sample_ounce_override_entries) =
     [(''price_gram'', Num False 85), (''gram_to_ounce'', dbl False (105 / 100))] \<and>
   gold5 ''inr'' sample_ounce_override_entries = Some (Num False 85) \<and>
   silver5 ''inr'' sample_ounce_override_entries = Some (dbl False (105 / 100)) \<and>
   goldFromOunce ''inr'' sample_ounce_override_entries = Some (Num False 1050) \<and>
   goldPerGram ''inr'' sample_ounce_override_entries = Some (Num False 1050) \<and>
   goldPerGram ''inr'' sample_ounce_override_entries \<noteq> Some (Num False 85) \<and>
   respond ''inr'' sample_ounce_override sample_ounce_override_entries =
     Status200 \<lparr>gold = \<lparr>perGram = Num False 1050, perOunce = Num False 1000, perKg = Num False 1050000\<rparr>,
                silver = \<lparr>perGram = Num False (4728779608739021 / 4503599627370496),
                           perOunce = Num False 1, perKg = Num False 1050\<rparr>\<rparr>"
    by code_simp
  show ?thesis
    using flat rest by (rule conjI)
qed

text \<open>
  C4, amended: the candidates of step 5 are the entries whose key contains \<^verbatim>\<open>gram\<close> and
  whose value is numeric (but not, for a currency other than \<^verbatim>\<open>usd\<close>, those whose key
  contains \<^verbatim>\<open>usd\<close>), each with its number, in descending order of the numbers (each is
  \<^verbatim>\<open>>=\<close> all that follow). When steps 1 to 4 left gold unresolved, gold becomes the first
  number (the largest), if there is one; when they left silver unresolved, silver becomes
  the second number (the second largest), if there are two; a metal resolved before
  keeps its price. In particular, when steps 1 to 4 resolve neither metal, the numbers of
  the candidates are 85 and 1.05, and no price from ounces takes over (the currency is
  \<^verbatim>\<open>usd\<close>, or the entries hold no factor that is a number other than zero, or neither
  lookup of a price per ounce finds a numeric value), the final price per gram is 85 for
  gold and 1.05 for silver, and the response (when the log line can print the factor) is
  \<open>200\<close> with these prices.
\<close>

theorem gram_fallback:
  "mset (map fst (gramCandidates currency entries)) =
     mset (filter (\<lambda>e. str_includes (lc (key e)) ''gram'' \<and> parseNumber (value e) \<noteq> None \<and>
                        (currency = ''usd'' \<or> \<not> str_includes (lc (key e)) ''usd''))
             entries) \<and>
   (\<forall>c \<in> set (gramCandidates currency entries). parseNumber (value (fst c)) = Some (snd c)) \<and>
   sorted_wrt js_ge (map snd (gramCandidates currency entries)) \<and>
   (gold4 currency entries = None \<longrightarrow>
      gold5 currency entries =
        (case gramCandidates currency entries of [] \<Rightarrow> None | c # cs \<Rightarrow> Some (snd c))) \<and>
   (silver4 currency entries = None \<longrightarrow>
      silver5 currency entries =
        (case gramCandidates currency entries of c # d # cs \<Rightarrow> Some (snd d) | _ \<Rightarrow> None)) \<and>
   (gold4 currency entries \<noteq> None \<longrightarrow> gold5 currency entries = gold4 currency entries) \<and>
   (silver4 currency entries \<noteq> None \<longrightarrow> silver5 currency entries = silver4 currency entries) \<and>
   (gold4 currency entries = None \<and> silver4 currency entries = None \<and>
    mset (map snd (gramCandidates currency entries)) = {#Num False 85, dbl False (105 / 100)#} \<and>
    (currency = ''usd'' \<or> gramToOunce_found entries = None \<or>
     (\<exists>z. gramToOunce_found entries = Some z \<and> \<not> truthy_num z) \<or>
     (number_of (gOunce currency entries) = None \<and> number_of (sOunce currency entries) = None)) \<longrightarrow>
      goldPerGram currency entries = Some (Num False 85) \<and>
      silverPerGram currency entries = Some (dbl False (105 / 100)) \<and>
      (can_stringify (gramToOunce entries data) \<longrightarrow>
         (\<exists>r. respond currency data entries = Status200 r \<and>
              perGram (gold r) = Num False 85 \<and> perGram (silver r) = dbl False (105 / 100))))"
proof -
  have numbers: "\<forall>c \<in> set (gramCandidates currency entries). parseNumber (value (fst c)) = Some (snd c)"
    using gramCandidates_numbers by blast
  have kept: "gold4 currency entries \<noteq> None \<longrightarrow> gold5 currency entries = gold4 currency entries"
    "silver4 currency entries \<noteq> None \<longrightarrow> silver5 currency entries = silver4 currency entries"
    by (simp_all add: gold5_def silver5_def Let_def)
  have particular: "goldPerGram currency entries = Some (Num False 85) \<and>
      silverPerGram currency entries = Some (dbl False (105 / 100)) \<and>
      (can_stringify (gramToOunce entries data) \<longrightarrow>
         (\<exists>r. respond currency data entries = Status200 r \<and>
              perGram (gold r) = Num False 85 \<and> perGram (silver r) = dbl False (105 / 100)))"
    if g4: "gold4 currency entries = None" and s4: "silver4 currency entries = None"
      and two: "mset (map snd (gramCandidates currency entries)) = {#Num False 85, dbl False (105 / 100)#}"
      and ounce: "currency = ''usd'' \<or> gramToOunce_found entries = None \<or>
        (\<exists>z. gramToOunce_found entries = Some z \<and> \<not> truthy_num z) \<or>
        (number_of (gOunce currency entries) = None \<and> number_of (sOunce currency entries) = None)"
  proof -
    from two_candidates [OF two gramCandidates_sorted] obtain c d where
      cs: "gramCandidates currency entries = [c, d]" and
      c: "snd c = Num False 85" and d: "snd d = dbl False (105 / 100)"
      by blast
    have g5: "gold5 currency entries = Some (Num False 85)"
      using step5_gold [OF g4] cs c by simp
    have s5: "silver5 currency entries = Some (dbl False (105 / 100))"
      using step5_silver [OF s4] cs d by simp
    have g6: "gold6 currency entries = Some (Num False 85)"
      using g5 s5 by (simp add: gold6_def)
    have s6: "silver6 currency entries = Some (dbl False (105 / 100))"
      using g5 s5 by (simp add: silver6_def)
    have gold_none: "currency = ''usd'' \<or> goldFromOunce currency entries = None"
      unfolding goldFromOunce_def
      using ounce fromOunce_None [of "gramToOunce_found entries" "gOunce currency entries"]
      by auto
    have silver_none: "currency = ''usd'' \<or> silverFromOunce currency entries = None"
      unfolding silverFromOunce_def
      using ounce fromOunce_None [of "gramToOunce_found entries" "sOunce currency entries"]
      by auto
    have "goldPerGram currency entries = Some (Num False 85)"
      unfolding goldPerGram_def g6 using gold_none by (rule prefer_ounce_resolved)
    moreover have "silverPerGram currency entries = Some (dbl False (105 / 100))"
      unfolding silverPerGram_def s6 using silver_none by (rule prefer_ounce_resolved)
    ultimately show ?thesis
      by (simp add: respond_def convert_def)
  qed
  show ?thesis
    using gramCandidates_entries [of currency entries] numbers gramCandidates_sorted [of currency entries]
      step5_gold [of currency entries] step5_silver [of currency entries] kept particular
    by blast
qed

lemma scenario_C_facts:
  "gold4 ''inr'' scenario_C_entries = None"
  "silver4 ''inr'' scenario_C_entries = None"
  "map snd (gramCandidates ''inr'' scenario_C_entries) = [Num False 85, dbl False (105 / 100)]"
  "number_of (gOunce ''inr'' scenario_C_entries) = None"
  "number_of (sOunce ''inr'' scenario_C_entries) = None"
  "can_stringify (gramToOunce scenario_C_entries scenario_C)"
  by code_simp+

text \<open>
  The theorem at scenario C for the currency \<^verbatim>\<open>inr\<close>: the smaller price comes first in
  the payload, and gold still gets the larger one.
\<close>

theorem gram_fallback_witness:
  "(\<forall>n. flatten (n + 2) (wide scenario_C) = Some (map wide_entry scenario_C_entries)) \<and>
   gold4 ''inr'' scenario_C_entries = None \<and> silver4 ''inr'' scenario_C_entries = None \<and>
   goldPerGram ''inr'' scenario_C_entries = Some (Num False 85) \<and>
   silverPerGram ''inr'' scenario_C_entries = Some (dbl False (105 / 100)) \<and>
   (\<exists>r. respond ''inr'' scenario_C scenario_C_entries = Status200 r \<and>
        perGram (gold r) = Num False 85 \<and> perGram (silver r) = dbl False (105 / 100))"
proof -
  have flat: "\<forall>n. flatten (n + 2) (wide scenario_C) = Some (map wide_entry scenario_C_entries)"
    using scenario_C_flat by blast
  have "mset (map snd (gramCandidates ''inr'' scenario_C_entries)) = {#Num False 85, dbl False (105 / 100)#}"
    unfolding scenario_C_facts(3) by simp
  then have rest: "gold4 ''inr'' scenario_C_entries = None \<and> silver4 ''inr'' scenario_C_entries = None \<and>
   goldPerGram ''inr'' scenario_C_entries = Some (Num False 85) \<and>
   silverPerGram ''inr'' scenario_C_entries = Some (dbl False (105 / 100)) \<and>
   (\<exists>r. respond ''inr'' scenario_C scenario_C_entries = Status200 r \<and>
        perGram (gold r) = Num False 85 \<and> perGram (silver r) = dbl False (105 / 100))"
    using gram_fallback [of "''inr''" scenario_C_entries scenario_C] scenario_C_facts(1,2,4,5,6)
    by blast
  show ?thesis
    using flat rest by (rule conjI)
qed

end
